theory Spec2Isabelle
  imports Main "HOL-Library.AList" "HOL-Library.Word"
begin

unbundle bit_operations_syntax

section \<open>Undo/redo history of the whiteboard component\<close>

















subsection \<open>What holds in every run\<close>









subsection \<open>What holds when every operation runs on a fresh closure\<close>
















section \<open>Effects shared by the handlers\<close>

text \<open>Exceptions: a failed \<^verbatim>\<open>JSON.parse\<close>, a property read on \<^verbatim>\<open>undefined\<close>.\<close>

datatype exn = SyntaxError | TypeError

text \<open>
  What a handler does to the outside world, in the order it does it: a call of
  \<^verbatim>\<open>localParticipant.publishData(payload, {reliable, topic})\<close> and the console calls. A
  publish whose promise is rejected only logs a warning later; the effect recorded here
  is the call. The payload type \<open>'p\<close> stands for the bytes on the wire
  (\<^verbatim>\<open>Uint8Array\<close>). \<open>Uncaught\<close> is an exception that no \<^verbatim>\<open>try\<close> block of the handler
  catches.
\<close>

datatype 'p effect =
    PublishData 'p bool string
  | Console_log string
  | Console_warn string
  | Console_error string
  | Uncaught exn

text \<open>The payloads published in a list of effects, in order.\<close>

fun published :: "'p effect list \<Rightarrow> 'p list" where
  "published [] = []"
| "published (PublishData payload reliable topic # es) = payload # published es"
| "published (e # es) = published es"

text \<open>
  The transport: \<^verbatim>\<open>room.state\<close> and the local participant, given by its identity. In
  the room page both come from the LiveKit hooks and are never \<^verbatim>\<open>undefined\<close>.
\<close>

datatype connection_state = Disconnected | Connecting | Connected | Reconnecting | SignalReconnecting

record room =
  room_state :: connection_state
  room_localParticipant :: string

section \<open>Whiteboard synchronisation in the room page\<close>

text \<open>
  The element type of the page is the legacy \<^verbatim>\<open>Stroke\<close> of \<^verbatim>\<open>components/Whiteboard.tsx\<close>.
  JavaScript numbers are a type parameter \<open>'n\<close>: the synchronisation code only carries
  them. A point \<^verbatim>\<open>{x, y}\<close> is a pair.
\<close>

datatype tool_kind = Tool_pen | Tool_highlighter | Tool_rectangle | Tool_ellipse | Tool_arrow | Tool_line

datatype element_kind = Kind_stroke | Kind_shape

record 'n Stroke =
  stroke_points :: "('n \<times> 'n) list"
  stroke_color :: string
  stroke_width :: 'n
  stroke_id :: string
  stroke_tool :: "tool_kind option"
  stroke_type :: "element_kind option"

text \<open>
  The JSON envelope of the \<^verbatim>\<open>whiteboard\<close> topic, as \<^verbatim>\<open>handleData\<close> reads it after
  \<^verbatim>\<open>JSON.parse\<close>: the field \<^verbatim>\<open>type\<close> selects the branch. A field the handler tests
  before use is optional here: \<^verbatim>\<open>id\<close> of a \<^verbatim>\<open>remove\<close> (\<open>None\<close> when absent) and
  \<^verbatim>\<open>strokes\<close> of a \<^verbatim>\<open>sync-response\<close> (\<open>None\<close> when absent or not an array). A field it
  uses untested (\<^verbatim>\<open>data\<close> of a \<^verbatim>\<open>stroke\<close>) has its declared type.
\<close>

datatype 'n wb_message =
    Msg_stroke "'n Stroke"
  | Msg_clear
  | Msg_sync_request
  | Msg_remove "string option"
  | Msg_sync_response "'n Stroke list option"
  | Msg_other

text \<open>
  \<^verbatim>\<open>JSON.parse(decoder.decode(payload))\<close> and \<^verbatim>\<open>encoder.encode(JSON.stringify(m))\<close> belong
  to the platform; the handlers take them as parameters \<open>JSON_parse\<close> (\<open>None\<close> when parsing
  throws) and \<open>JSON_stringify\<close>.

  The body of the \<^verbatim>\<open>try\<close> block of \<^verbatim>\<open>handleData\<close>. It returns the new element list and
  the effects, or the exception thrown. The branches stand in the order of the source.
  The state updates go through \<^verbatim>\<open>setStrokes\<close> and act on the list React holds
  (\<open>strokes\<close>). The \<^verbatim>\<open>sync-request\<close> branch does not read that list: it reads
  \<^verbatim>\<open>strokesRef.current\<close> (\<open>strokesRef\<close>), which an effect assigns after a render and
  which therefore is the list as of the last render.
\<close>

definition handleData_try ::
  "('p \<Rightarrow> 'n wb_message option) \<Rightarrow> ('n wb_message \<Rightarrow> 'p) \<Rightarrow> room \<Rightarrow> 'p \<Rightarrow> 'n Stroke list
     \<Rightarrow> 'n Stroke list \<Rightarrow> exn + ('n Stroke list \<times> 'p effect list)" where
  "handleData_try JSON_parse JSON_stringify rm payload strokesRef strokes =
     (case JSON_parse payload of
        None \<Rightarrow> Inl SyntaxError
      | Some json \<Rightarrow>
          Inr (case json of
                 Msg_stroke d \<Rightarrow> (strokes @ [d], [])
               | Msg_clear \<Rightarrow> ([], [])
               | Msg_sync_request \<Rightarrow>
                   (if length strokesRef > 0 \<and> room_state rm = Connected
                    then (strokes,
                          [PublishData (JSON_stringify (Msg_sync_response (Some strokesRef))) True
                             ''whiteboard''])
                    else (strokes, []))
               | Msg_remove i \<Rightarrow>
                   (case i of
                      None \<Rightarrow> (strokes, [])
                    | Some v \<Rightarrow>
                        if v \<noteq> [] then (filter (\<lambda>s. stroke_id s \<noteq> v) strokes, [])
                        else (strokes, []))
               | Msg_sync_response l \<Rightarrow>
                   (case l of None \<Rightarrow> (strokes, []) | Some received \<Rightarrow> (received, []))
               | Msg_other \<Rightarrow> (strokes, [])))"

text \<open>
  \<^verbatim>\<open>handleData(payload, participant, kind, topic)\<close>: the topic filter, the loopback guard
  on \<^verbatim>\<open>participant?.identity\<close> (\<open>None\<close> is \<^verbatim>\<open>undefined\<close>), then the \<^verbatim>\<open>try\<close> block
  with its \<^verbatim>\<open>catch\<close>, which logs and returns.
\<close>

definition handleData ::
  "('p \<Rightarrow> 'n wb_message option) \<Rightarrow> ('n wb_message \<Rightarrow> 'p) \<Rightarrow> room \<Rightarrow> 'p \<Rightarrow> string option
     \<Rightarrow> string option \<Rightarrow> 'n Stroke list \<Rightarrow> 'n Stroke list \<Rightarrow> 'n Stroke list \<times> 'p effect list" where
  "handleData JSON_parse JSON_stringify rm payload participant topic strokesRef strokes =
     (if topic \<noteq> Some ''whiteboard'' then (strokes, [])
      else if participant = Some (room_localParticipant rm) then (strokes, [])
      else case handleData_try JSON_parse JSON_stringify rm payload strokesRef strokes of
             Inl err \<Rightarrow> (strokes, [Console_error ''Error decoding whiteboard data''])
           | Inr result \<Rightarrow> result)"

text \<open>
  The local handlers: update the list, then publish when the room is connected. They
  do not read the ref.
\<close>

definition handleAddStroke ::
  "('n wb_message \<Rightarrow> 'p) \<Rightarrow> room \<Rightarrow> 'n Stroke \<Rightarrow> 'n Stroke list \<Rightarrow> 'n Stroke list \<times> 'p effect list" where
  "handleAddStroke JSON_stringify rm stroke strokes =
     (if room_state rm \<noteq> Connected then (strokes @ [stroke], [])
      else (strokes @ [stroke], [PublishData (JSON_stringify (Msg_stroke stroke)) True ''whiteboard'']))"

definition handleRemoveStroke ::
  "('n wb_message \<Rightarrow> 'p) \<Rightarrow> room \<Rightarrow> string \<Rightarrow> 'n Stroke list \<Rightarrow> 'n Stroke list \<times> 'p effect list" where
  "handleRemoveStroke JSON_stringify rm i strokes =
     (if room_state rm \<noteq> Connected then (filter (\<lambda>s. stroke_id s \<noteq> i) strokes, [])
      else (filter (\<lambda>s. stroke_id s \<noteq> i) strokes,
            [PublishData (JSON_stringify (Msg_remove (Some i))) True ''whiteboard'']))"

definition handleClear ::
  "('n wb_message \<Rightarrow> 'p) \<Rightarrow> room \<Rightarrow> 'n Stroke list \<Rightarrow> 'n Stroke list \<times> 'p effect list" where
  "handleClear JSON_stringify rm strokes =
     (if room_state rm \<noteq> Connected then ([], [])
      else ([], [PublishData (JSON_stringify Msg_clear) True ''whiteboard'']))"

definition handleSetStrokes :: "'n Stroke list \<Rightarrow> 'n Stroke list \<Rightarrow> 'n Stroke list" where
  "handleSetStrokes newStrokes strokes = newStrokes"

text \<open>
  A local whiteboard operation, the message its handler publishes, and a sequence of
  operations run through the local handlers, collecting the effects.
\<close>

datatype 'n wb_op = Add "'n Stroke" | Remove string | Clear

fun message_of :: "'n wb_op \<Rightarrow> 'n wb_message" where
  "message_of (Add stroke) = Msg_stroke stroke"
| "message_of (Remove i) = Msg_remove (Some i)"
| "message_of Clear = Msg_clear"

fun apply_local ::
  "('n wb_message \<Rightarrow> 'p) \<Rightarrow> room \<Rightarrow> 'n wb_op \<Rightarrow> 'n Stroke list \<Rightarrow> 'n Stroke list \<times> 'p effect list" where
  "apply_local JSON_stringify rm (Add stroke) strokes = handleAddStroke JSON_stringify rm stroke strokes"
| "apply_local JSON_stringify rm (Remove i) strokes = handleRemoveStroke JSON_stringify rm i strokes"
| "apply_local JSON_stringify rm Clear strokes = handleClear JSON_stringify rm strokes"

fun run_local ::
  "('n wb_message \<Rightarrow> 'p) \<Rightarrow> room \<Rightarrow> 'n wb_op list \<Rightarrow> 'n Stroke list \<Rightarrow> 'n Stroke list \<times> 'p effect list" where
  "run_local JSON_stringify rm [] strokes = (strokes, [])"
| "run_local JSON_stringify rm (x # xs) strokes =
     (case apply_local JSON_stringify rm x strokes of
        (strokes', es) \<Rightarrow>
          (case run_local JSON_stringify rm xs strokes' of (strokes'', es') \<Rightarrow> (strokes'', es @ es')))"

text \<open>
  The whiteboard state of the page: the list React holds and the ref. Both start
  empty (\<^verbatim>\<open>useState([])\<close>, \<^verbatim>\<open>useRef([])\<close>).
\<close>

record 'n page =
  page_strokes :: "'n Stroke list"
  page_strokesRef :: "'n Stroke list"

definition initial_page :: "'n page" where
  "initial_page = \<lparr>page_strokes = [], page_strokesRef = []\<rparr>"

text \<open>
  Everything that happens to one participant's whiteboard state: a local operation, a
  payload received on the whiteboard topic from some sender, or a render, after which
  the effect \<^verbatim>\<open>strokesRef.current = strokes\<close> runs. A run returns the final state and
  the effects, in order.
\<close>

datatype ('n, 'p) wb_event = Local "'n wb_op" | Remote "string option" 'p | Render_page

fun wb_step ::
  "('p \<Rightarrow> 'n wb_message option) \<Rightarrow> ('n wb_message \<Rightarrow> 'p) \<Rightarrow> room \<Rightarrow> ('n, 'p) wb_event
     \<Rightarrow> 'n page \<Rightarrow> 'n page \<times> 'p effect list" where
  "wb_step JSON_parse JSON_stringify rm (Local x) st =
     (case apply_local JSON_stringify rm x (page_strokes st) of
        (strokes', es) \<Rightarrow> (st\<lparr>page_strokes := strokes'\<rparr>, es))"
| "wb_step JSON_parse JSON_stringify rm (Remote sender payload) st =
     (case handleData JSON_parse JSON_stringify rm payload sender (Some ''whiteboard'')
             (page_strokesRef st) (page_strokes st) of
        (strokes', es) \<Rightarrow> (st\<lparr>page_strokes := strokes'\<rparr>, es))"
| "wb_step JSON_parse JSON_stringify rm Render_page st =
     (st\<lparr>page_strokesRef := page_strokes st\<rparr>, [])"

fun wb_run ::
  "('p \<Rightarrow> 'n wb_message option) \<Rightarrow> ('n wb_message \<Rightarrow> 'p) \<Rightarrow> room \<Rightarrow> ('n, 'p) wb_event list
     \<Rightarrow> 'n page \<Rightarrow> 'n page \<times> 'p effect list" where
  "wb_run JSON_parse JSON_stringify rm [] st = (st, [])"
| "wb_run JSON_parse JSON_stringify rm (e # es) st =
     (case wb_step JSON_parse JSON_stringify rm e st of
        (st', out) \<Rightarrow>
          (case wb_run JSON_parse JSON_stringify rm es st' of (st'', out') \<Rightarrow> (st'', out @ out')))"

subsection \<open>Sample data for the examples\<close>

definition sample_stroke :: "string \<Rightarrow> int Stroke" where
  "sample_stroke i =
     \<lparr>stroke_points = [(0, 0), (1, 1)], stroke_color = ''#000000'', stroke_width = 2,
      stroke_id = i, stroke_tool = Some Tool_pen, stroke_type = Some Kind_stroke\<rparr>"

definition room_alice :: room where
  "room_alice = \<lparr>room_state = Connected, room_localParticipant = ''alice''\<rparr>"

definition room_bob :: room where
  "room_bob = \<lparr>room_state = Connected, room_localParticipant = ''bob''\<rparr>"

subsection \<open>What each handler computes\<close>

text \<open>
  The result of \<^verbatim>\<open>handleData\<close> for a payload that parses, from a sender other than the
  local participant, branch by branch.
\<close>

lemma handleData_remote:
  assumes "JSON_parse payload = Some m" and "participant \<noteq> Some (room_localParticipant rm)"
  shows "handleData JSON_parse JSON_stringify rm payload participant (Some ''whiteboard'')
           strokesRef strokes =
     (case m of
        Msg_stroke d \<Rightarrow> (strokes @ [d], [])
      | Msg_clear \<Rightarrow> ([], [])
      | Msg_sync_request \<Rightarrow>
          (strokes, if strokesRef \<noteq> [] \<and> room_state rm = Connected
                    then [PublishData (JSON_stringify (Msg_sync_response (Some strokesRef))) True
                            ''whiteboard'']
                    else [])
      | Msg_remove None \<Rightarrow> (strokes, [])
      | Msg_remove (Some v) \<Rightarrow> (if v \<noteq> [] then filter (\<lambda>s. stroke_id s \<noteq> v) strokes else strokes, [])
      | Msg_sync_response None \<Rightarrow> (strokes, [])
      | Msg_sync_response (Some received) \<Rightarrow> (received, [])
      | Msg_other \<Rightarrow> (strokes, []))"
  using assms by (simp add: handleData_def handleData_try_def split: wb_message.splits option.splits)

text \<open>The list a handler returns does not depend on the ref.\<close>

lemma handleData_list_ignores_ref:
  "fst (handleData JSON_parse JSON_stringify rm payload participant topic strokesRef strokes) =
   fst (handleData JSON_parse JSON_stringify rm payload participant topic strokesRef' strokes)"
  by (simp add: handleData_def handleData_try_def split: wb_message.splits option.splits)

lemma apply_local_published:
  "room_state rm = Connected \<Longrightarrow>
   published (snd (apply_local JSON_stringify rm x strokes)) = [JSON_stringify (message_of x)]"
  by (cases x) (simp_all add: handleAddStroke_def handleRemoveStroke_def handleClear_def)

lemma published_append: "published (es @ es') = published es @ published es'"
  by (induction es rule: published.induct) simp_all

lemma run_local_published:
  "room_state rm = Connected \<Longrightarrow>
   published (snd (run_local JSON_stringify rm ops strokes)) = map (\<lambda>x. JSON_stringify (message_of x)) ops"
proof (induction ops arbitrary: strokes)
  case Nil
  then show ?case by simp
next
  case (Cons x xs)
  obtain s1 es1 where a: "apply_local JSON_stringify rm x strokes = (s1, es1)"
    by (cases "apply_local JSON_stringify rm x strokes")
  obtain s2 es2 where r: "run_local JSON_stringify rm xs s1 = (s2, es2)"
    by (cases "run_local JSON_stringify rm xs s1")
  have "published es1 = [JSON_stringify (message_of x)]"
    using apply_local_published [OF Cons.prems, of JSON_stringify x strokes] a by simp
  moreover have "published es2 = map (\<lambda>x. JSON_stringify (message_of x)) xs"
    using Cons.IH [OF Cons.prems, of s1] r by simp
  ultimately show ?case
    using a r by (simp add: published_append)
qed

lemma receive_one_op:
  assumes roundtrip: "\<And>m. JSON_parse (JSON_stringify m) = Some m"
    and remote: "sender \<noteq> Some (room_localParticipant rmB)"
    and ids: "\<forall>i. x = Remove i \<longrightarrow> i \<noteq> ''''"
  shows "fst (handleData JSON_parse JSON_stringify rmB (JSON_stringify (message_of x)) sender
            (Some ''whiteboard'') strokesRef strokes) = fst (apply_local JSON_stringify' rmA x strokes)"
proof -
  have "JSON_parse (JSON_stringify (message_of x)) = Some (message_of x)"
    by (rule roundtrip)
  from handleData_remote [where JSON_parse = JSON_parse and payload = "JSON_stringify (message_of x)"
      and m = "message_of x" and JSON_stringify = JSON_stringify and strokes = strokes
      and strokesRef = strokesRef, OF this remote] ids
  show ?thesis
    by (cases x) (simp_all add: handleAddStroke_def handleRemoveStroke_def handleClear_def)
qed


lemma deliveries_agree:
  assumes roundtrip: "\<And>m. JSON_parse (JSON_stringify m) = Some m"
    and remote: "sender \<noteq> Some (room_localParticipant rmB)"
  shows "filter (\<lambda>e. e \<noteq> Render_page) events =
           map (\<lambda>x. Remote sender (JSON_stringify (message_of x))) ops \<Longrightarrow>
         \<forall>i. Remove i \<in> set ops \<longrightarrow> i \<noteq> '''' \<Longrightarrow>
         page_strokes (fst (wb_run JSON_parse JSON_stringify rmB events st)) =
         fst (run_local JSON_stringify' rmA ops (page_strokes st))"
proof (induction events arbitrary: ops st)
  case Nil
  then show ?case by simp
next
  case (Cons e events)
  show ?case
  proof (cases e)
    case (Local y)
    with Cons.prems(1) show ?thesis by (cases ops) simp_all
  next
    case Render_page
    with Cons.prems have "filter (\<lambda>e. e \<noteq> Render_page) events =
        map (\<lambda>x. Remote sender (JSON_stringify (message_of x))) ops"
      by simp
    from Cons.IH [OF this Cons.prems(2), of "st\<lparr>page_strokesRef := page_strokes st\<rparr>"] Render_page
    show ?thesis by (simp add: split_beta)
  next
    case (Remote s payload)
    with Cons.prems(1) obtain x xs where ops: "ops = x # xs"
      and s: "s = sender" and payload: "payload = JSON_stringify (message_of x)"
      and rest: "filter (\<lambda>e. e \<noteq> Render_page) events =
        map (\<lambda>x. Remote sender (JSON_stringify (message_of x))) xs"
      by (cases ops) auto
    have "\<forall>i. x = Remove i \<longrightarrow> i \<noteq> ''''" using Cons.prems(2) ops by simp
    with roundtrip remote
    have one: "fst (handleData JSON_parse JSON_stringify rmB (JSON_stringify (message_of x)) sender
            (Some ''whiteboard'') (page_strokesRef st) (page_strokes st)) =
          fst (apply_local JSON_stringify' rmA x (page_strokes st))"
      by (rule receive_one_op)
    have ids: "\<forall>i. Remove i \<in> set xs \<longrightarrow> i \<noteq> ''''" using Cons.prems(2) ops by simp
    from Cons.IH [OF rest ids] one show ?thesis
      by (simp add: Remote ops s payload split_beta)
  qed
qed

subsection \<open>Two participants applying the same operations\<close>

text \<open>
  Claim C1, as amended. Participant A applies a sequence of add, remove and clear
  operations through its local handlers; participant B, a different identity, starts
  from the same list and receives the corresponding messages (\<^verbatim>\<open>stroke\<close>, \<^verbatim>\<open>remove\<close>,
  \<^verbatim>\<open>clear\<close>) in the same order, with renders of B falling anywhere between them, where
  parsing inverts serialisation. If every remove names a non-empty id, both end with
  the same element list. Moreover, while A's room is connected, the payloads A
  publishes are exactly these messages, in order.
\<close>

theorem whiteboard_replicas_agree:
  assumes roundtrip: "\<And>m. JSON_parse (JSON_stringify m) = Some m"
    and remote: "room_localParticipant rmA \<noteq> room_localParticipant rmB"
    and ids: "\<forall>i. Remove i \<in> set ops \<longrightarrow> i \<noteq> ''''"
    and deliveries: "filter (\<lambda>e. e \<noteq> Render_page) events =
           map (\<lambda>x. Remote (Some (room_localParticipant rmA)) (JSON_stringify (message_of x))) ops"
  shows "page_strokes (fst (wb_run JSON_parse JSON_stringify rmB events st)) =
         fst (run_local JSON_stringify rmA ops (page_strokes st)) \<and>
         (room_state rmA = Connected \<longrightarrow>
            published (snd (run_local JSON_stringify rmA ops (page_strokes st))) =
            map (\<lambda>x. JSON_stringify (message_of x)) ops)"
proof -
  have "Some (room_localParticipant rmA) \<noteq> Some (room_localParticipant rmB)"
    using remote by simp
  with roundtrip
  have "page_strokes (fst (wb_run JSON_parse JSON_stringify rmB events st)) =
         fst (run_local JSON_stringify rmA ops (page_strokes st))"
    using deliveries ids by (rule deliveries_agree)
  then show ?thesis
    using run_local_published [of rmA JSON_stringify ops "page_strokes st"] by simp
qed

text \<open>
  An instance: two adds and a remove, from the empty board; bob renders once between
  the messages.
\<close>

theorem whiteboard_replicas_agree_example:
  "page_strokes (fst (wb_run Some id room_bob
       [Remote (Some ''alice'') (Msg_stroke (sample_stroke ''a1'')), Render_page,
        Remote (Some ''alice'') (Msg_stroke (sample_stroke ''b2'')),
        Remote (Some ''alice'') (Msg_remove (Some ''a1''))] initial_page)) =
     [sample_stroke ''b2''] \<and>
   fst (run_local id room_alice [Add (sample_stroke ''a1''), Add (sample_stroke ''b2''), Remove ''a1''] []) =
     [sample_stroke ''b2''] \<and>
   published (snd (run_local id room_alice
          [Add (sample_stroke ''a1''), Add (sample_stroke ''b2''), Remove ''a1''] [])) =
     [Msg_stroke (sample_stroke ''a1''), Msg_stroke (sample_stroke ''b2''), Msg_remove (Some ''a1'')]"
proof -
  have roundtrip: "\<And>m :: int wb_message. Some (id m) = Some m"
    by simp
  have remote: "room_localParticipant room_alice \<noteq> room_localParticipant room_bob"
    by (simp add: room_alice_def room_bob_def)
  have ids: "\<forall>i. Remove i \<in> set [Add (sample_stroke ''a1''), Add (sample_stroke ''b2''), Remove ''a1'']
      \<longrightarrow> i \<noteq> ''''"
    by simp
  have deliveries: "filter (\<lambda>e. e \<noteq> Render_page)
       [Remote (Some ''alice'') (Msg_stroke (sample_stroke ''a1'')), Render_page,
        Remote (Some ''alice'') (Msg_stroke (sample_stroke ''b2'')),
        Remote (Some ''alice'') (Msg_remove (Some ''a1''))] =
     map (\<lambda>x. Remote (Some (room_localParticipant room_alice)) (id (message_of x)))
       [Add (sample_stroke ''a1''), Add (sample_stroke ''b2''), Remove ''a1'']"
    by (simp add: room_alice_def)
  have connected: "room_state room_alice = Connected"
    by (simp add: room_alice_def)
  have local: "fst (run_local id room_alice
      [Add (sample_stroke ''a1''), Add (sample_stroke ''b2''), Remove ''a1''] []) = [sample_stroke ''b2'']"
    by (simp add: handleAddStroke_def handleRemoveStroke_def sample_stroke_def)
  from whiteboard_replicas_agree [where JSON_parse = Some and JSON_stringify = id
      and st = initial_page, OF roundtrip remote ids deliveries] connected local
  show ?thesis
    by (simp add: initial_page_def)
qed

text \<open>
  The claim as stated, for every sequence of operations, fails on a remove of the empty
  id: A's \<^verbatim>\<open>handleRemoveStroke\<close> filters the element whose id is the empty string and
  publishes the \<^verbatim>\<open>remove\<close> message, and B's handler skips it, because the guard
  \<^verbatim>\<open>if (json.id)\<close> takes the empty string for a missing id. A ends with the empty
  list, B keeps the element.
\<close>

theorem whiteboard_remove_empty_id_diverges:
  "run_local id room_alice [Remove ''''] [sample_stroke ''''] =
     ([], [PublishData (Msg_remove (Some '''')) True ''whiteboard'']) \<and>
   wb_run Some id room_bob [Remote (Some ''alice'') (Msg_remove (Some ''''))]
     \<lparr>page_strokes = [sample_stroke ''''], page_strokesRef = [sample_stroke '''']\<rparr> =
     (\<lparr>page_strokes = [sample_stroke ''''], page_strokesRef = [sample_stroke '''']\<rparr>, [])"
  by (simp add: handleRemoveStroke_def handleData_def handleData_try_def room_alice_def
      room_bob_def sample_stroke_def)

subsection \<open>Full-state exchange\<close>

text \<open>
  Claim C2. For every prior element list, a \<^verbatim>\<open>sync-response\<close> message that carries a
  list, received on the whiteboard topic from another participant, replaces the whole
  local list with the received one and publishes nothing. Nothing guards the
  replacement: it happens again for a second response, and a response that arrives
  after local edits (any sequence of local operations) discards them. The ref plays
  no part: this holds whatever it contains.
\<close>

theorem sync_response_replaces:
  assumes "participant \<noteq> Some (room_localParticipant rm)"
    and "JSON_parse payload = Some (Msg_sync_response (Some received))"
    and "JSON_parse payload' = Some (Msg_sync_response (Some received'))"
  shows "handleData JSON_parse JSON_stringify rm payload participant (Some ''whiteboard'')
           strokesRef strokes = (received, []) \<and>
         fst (handleData JSON_parse JSON_stringify rm payload participant (Some ''whiteboard'')
                strokesRef (fst (run_local JSON_stringify rm ops strokes))) = received \<and>
         fst (handleData JSON_parse JSON_stringify rm payload' participant (Some ''whiteboard'')
                strokesRef'
                (fst (handleData JSON_parse JSON_stringify rm payload participant (Some ''whiteboard'')
                        strokesRef strokes))) = received'"
  using assms by (simp add: handleData_remote)

text \<open>
  An instance: bob has drawn \<open>b7\<close> locally; alice's stale response, which holds only
  \<open>a1\<close>, wipes it out.
\<close>

theorem sync_response_replaces_example:
  "fst (run_local id room_bob [Add (sample_stroke ''b7'')] []) = [sample_stroke ''b7''] \<and>
   fst (handleData Some id room_bob (Msg_sync_response (Some [sample_stroke ''a1''])) (Some ''alice'')
          (Some ''whiteboard'') [] (fst (run_local id room_bob [Add (sample_stroke ''b7'')] []))) =
     [sample_stroke ''a1'']"
proof -
  have remote: "Some ''alice'' \<noteq> Some (room_localParticipant room_bob)"
    by (simp add: room_bob_def)
  have parsed: "Some (Msg_sync_response (Some [sample_stroke ''a1''])) =
      Some (Msg_sync_response (Some [sample_stroke ''a1'']))"
    by simp
  have edits: "fst (run_local id room_bob [Add (sample_stroke ''b7'')] []) = [sample_stroke ''b7'']"
    by (simp add: handleAddStroke_def)
  from sync_response_replaces [where JSON_parse = Some and JSON_stringify = id
      and ops = "[Add (sample_stroke ''b7'')]" and strokes = "[]" and strokesRef = "[]"
      and strokesRef' = "[]", OF remote parsed parsed] edits
  show ?thesis by simp
qed





subsection \<open>Uniqueness of element ids\<close>

text \<open>
  The code never compares ids when it adds. What keeps ids unique is the caller: an
  event brings fresh ids when the element it adds (a local add, a remote \<^verbatim>\<open>stroke\<close>)
  has an id that is not in the list yet, and when the list of a \<^verbatim>\<open>sync-response\<close> has
  no repeated id. \<open>fresh_run\<close> asks this of every event of a run, at the list it meets.
\<close>

fun brings_fresh_ids ::
  "('p \<Rightarrow> 'n wb_message option) \<Rightarrow> ('n, 'p) wb_event \<Rightarrow> 'n Stroke list \<Rightarrow> bool" where
  "brings_fresh_ids JSON_parse (Local (Add stroke)) strokes =
     (stroke_id stroke \<notin> set (map stroke_id strokes))"
| "brings_fresh_ids JSON_parse (Local x) strokes = True"
| "brings_fresh_ids JSON_parse (Remote sender payload) strokes =
     (case JSON_parse payload of
        Some (Msg_stroke d) \<Rightarrow> stroke_id d \<notin> set (map stroke_id strokes)
      | Some (Msg_sync_response (Some received)) \<Rightarrow> distinct (map stroke_id received)
      | _ \<Rightarrow> True)"
| "brings_fresh_ids JSON_parse Render_page strokes = True"

fun fresh_run ::
  "('p \<Rightarrow> 'n wb_message option) \<Rightarrow> ('n wb_message \<Rightarrow> 'p) \<Rightarrow> room \<Rightarrow> ('n, 'p) wb_event list
     \<Rightarrow> 'n page \<Rightarrow> bool" where
  "fresh_run JSON_parse JSON_stringify rm [] st = True"
| "fresh_run JSON_parse JSON_stringify rm (e # es) st =
     (brings_fresh_ids JSON_parse e (page_strokes st) \<and>
      fresh_run JSON_parse JSON_stringify rm es (fst (wb_step JSON_parse JSON_stringify rm e st)))"

lemma distinct_ids_filter:
  "distinct (map stroke_id strokes) \<Longrightarrow> distinct (map stroke_id (filter P strokes))"
  by (simp add: distinct_map_filter)

lemma wb_step_distinct:
  assumes "distinct (map stroke_id (page_strokes st))"
    and "brings_fresh_ids JSON_parse e (page_strokes st)"
  shows "distinct (map stroke_id (page_strokes (fst (wb_step JSON_parse JSON_stringify rm e st))))"
proof (cases e)
  case (Local x)
  with assms show ?thesis
    by (cases x) (simp_all add: handleAddStroke_def handleRemoveStroke_def handleClear_def
        distinct_ids_filter)
next
  case (Remote sender payload)
  with assms show ?thesis
    by (auto simp: handleData_def handleData_try_def distinct_ids_filter
        split: option.splits wb_message.splits)
next
  case Render_page
  with assms show ?thesis by simp
qed

text \<open>
  Claim C4, as amended. Starting from a list without repeated ids, after any sequence
  of local operations and received messages in which every added element brings an id
  that the list does not hold at that moment (and every received full list is free of
  repeated ids), no two elements of the resulting list share an id. Removes and clears
  never need a condition.
\<close>

theorem ids_unique_when_adds_fresh:
  assumes "distinct (map stroke_id (page_strokes st))"
    and "fresh_run JSON_parse JSON_stringify rm events st"
  shows "distinct (map stroke_id (page_strokes (fst (wb_run JSON_parse JSON_stringify rm events st))))"
  using assms
proof (induction events arbitrary: st)
  case Nil
  then show ?case by simp
next
  case (Cons e events)
  from Cons.prems have "distinct (map stroke_id
      (page_strokes (fst (wb_step JSON_parse JSON_stringify rm e st))))"
    by (simp add: wb_step_distinct)
  moreover from Cons.prems
  have "fresh_run JSON_parse JSON_stringify rm events (fst (wb_step JSON_parse JSON_stringify rm e st))"
    by simp
  ultimately show ?case
    using Cons.IH [of "fst (wb_step JSON_parse JSON_stringify rm e st)"] by (simp add: split_beta)
qed

text \<open>
  An instance: \<open>a1\<close> is added, removed by a remote message and added again, which is
  fresh at that moment.
\<close>

theorem ids_unique_example:
  "fresh_run Some id room_alice
     [Local (Add (sample_stroke ''a1'')), Remote (Some ''bob'') (Msg_stroke (sample_stroke ''b2'')),
      Remote (Some ''bob'') (Msg_remove (Some ''a1'')), Local (Add (sample_stroke ''a1''))]
     initial_page \<and>
   distinct (map stroke_id (page_strokes (fst (wb_run Some id room_alice
     [Local (Add (sample_stroke ''a1'')), Remote (Some ''bob'') (Msg_stroke (sample_stroke ''b2'')),
      Remote (Some ''bob'') (Msg_remove (Some ''a1'')), Local (Add (sample_stroke ''a1''))]
     initial_page))))"
proof -
  have start: "distinct (map stroke_id (page_strokes (initial_page :: int page)))"
    by (simp add: initial_page_def)
  have fresh: "fresh_run Some id room_alice
     [Local (Add (sample_stroke ''a1'')), Remote (Some ''bob'') (Msg_stroke (sample_stroke ''b2'')),
      Remote (Some ''bob'') (Msg_remove (Some ''a1'')), Local (Add (sample_stroke ''a1''))]
     initial_page"
    by (simp add: handleData_def handleData_try_def handleAddStroke_def room_alice_def
        sample_stroke_def initial_page_def)
  from ids_unique_when_adds_fresh [OF start fresh] fresh show ?thesis
    by (rule_tac conjI)
qed

text \<open>
  The claim as stated, for every sequence of adds and removes, fails as soon as an id
  arrives twice: alice adds \<open>a1\<close> and then receives a \<^verbatim>\<open>stroke\<close> message from bob that
  carries the same id. The handler appends without looking, and both copies stay.
\<close>

theorem duplicate_id_after_two_adds:
  "map stroke_id (page_strokes (fst (wb_run Some id room_alice
     [Local (Add (sample_stroke ''a1'')), Remote (Some ''bob'') (Msg_stroke (sample_stroke ''a1''))]
     initial_page))) = [''a1'', ''a1''] \<and>
   \<not> distinct (map stroke_id (page_strokes (fst (wb_run Some id room_alice
     [Local (Add (sample_stroke ''a1'')), Remote (Some ''bob'') (Msg_stroke (sample_stroke ''a1''))]
     initial_page))))"
  by (simp add: handleData_def handleData_try_def handleAddStroke_def room_alice_def sample_stroke_def
      initial_page_def)

section \<open>Document sync bridge\<close>

text \<open>
  \<^verbatim>\<open>LiveKitYjsProvider\<close> holds a Yjs document and an awareness object, both opaque here
  (\<open>'doc\<close>, \<open>'aw\<close>), the room and local participant it was connected with (\<open>None\<close> is
  \<^verbatim>\<open>null\<close>), and the two flags.
\<close>

record ('doc, 'aw) provider =
  this_doc :: 'doc
  this_awareness :: 'aw
  this_room :: "room option"
  this_localParticipant :: "string option"
  this_connected :: bool
  this_synced :: bool

definition DOC_TOPIC :: string where
  "DOC_TOPIC = ''code-editor''"

definition AWARENESS_TOPIC :: string where
  "AWARENESS_TOPIC = ''code-awareness''"

definition SYNC_REQUEST_TOPIC :: string where
  "SYNC_REQUEST_TOPIC = ''code-sync-request''"

definition SYNC_RESPONSE_TOPIC :: string where
  "SYNC_RESPONSE_TOPIC = ''code-sync-response''"

text \<open>
  The library calls are parameters. A call that mutates an object either returns or
  throws, and in both cases leaves the object in some state: \<open>Returned d\<close> and
  \<open>Thrown d\<close>. \<open>sync_request_bytes\<close> is the encoded \<^verbatim>\<open>{type: 'sync-request'}\<close>.
\<close>

datatype 'a outcome = Returned 'a | Thrown 'a

record ('doc, 'aw, 'p) library =
  Y_applyUpdate :: "'doc \<Rightarrow> 'p \<Rightarrow> 'doc outcome"
  applyAwarenessUpdate :: "'aw \<Rightarrow> 'p \<Rightarrow> string option \<Rightarrow> 'aw outcome"
  Y_encodeStateAsUpdate :: "'doc \<Rightarrow> 'p"
  sync_request_bytes :: 'p

text \<open>The constructor leaves the provider disconnected and not synced.\<close>

definition new_provider :: "'doc \<Rightarrow> 'aw \<Rightarrow> ('doc, 'aw) provider" where
  "new_provider d a =
     \<lparr>this_doc = d, this_awareness = a, this_room = None, this_localParticipant = None,
      this_connected = False, this_synced = False\<rparr>"

definition connect :: "room \<Rightarrow> string \<Rightarrow> ('doc, 'aw) provider \<Rightarrow> ('doc, 'aw) provider \<times> 'p effect list" where
  "connect rm localParticipant st =
     (if this_connected st then (st, [Console_warn ''[LiveKitProvider] Already connected''])
      else (st\<lparr>this_room := Some rm, this_localParticipant := Some localParticipant,
                this_connected := True\<rparr>,
            [Console_log ''[LiveKitProvider] Connected to room'']))"

definition disconnect :: "('doc, 'aw) provider \<Rightarrow> ('doc, 'aw) provider \<times> 'p effect list" where
  "disconnect st =
     (if \<not> this_connected st then (st, [])
      else (st\<lparr>this_room := None, this_localParticipant := None, this_connected := False,
                this_synced := False\<rparr>,
            [Console_log ''[LiveKitProvider] Disconnected'']))"

text \<open>
  \<^verbatim>\<open>requestSync\<close> once its one-second delay has passed, \<^verbatim>\<open>sendFullState\<close> and
  \<^verbatim>\<open>handleLocalUpdate\<close>: each checks that the provider and the room are connected and
  then publishes. What they log after the publish depends on how its promise settles
  and is left out.
\<close>

definition requestSync :: "('doc, 'aw, 'p) library \<Rightarrow> ('doc, 'aw) provider \<Rightarrow> 'p effect list" where
  "requestSync lib st =
     (if this_localParticipant st = None \<or> \<not> this_connected st then []
      else if map_option room_state (this_room st) \<noteq> Some Connected
      then [Console_log ''[LiveKitProvider] Skipping sync request - room not connected'']
      else [PublishData (sync_request_bytes lib) True SYNC_REQUEST_TOPIC])"

definition sendFullState :: "('doc, 'aw, 'p) library \<Rightarrow> ('doc, 'aw) provider \<Rightarrow> 'p effect list" where
  "sendFullState lib st =
     (if this_localParticipant st = None \<or> \<not> this_connected st then []
      else if map_option room_state (this_room st) \<noteq> Some Connected then []
      else [PublishData (Y_encodeStateAsUpdate lib (this_doc st)) True SYNC_RESPONSE_TOPIC])"

definition handleLocalUpdate :: "'p \<Rightarrow> bool \<Rightarrow> ('doc, 'aw) provider \<Rightarrow> 'p effect list" where
  "handleLocalUpdate update origin_is_this st =
     (if origin_is_this then []
      else if this_localParticipant st = None \<or> \<not> this_connected st then []
      else if map_option room_state (this_room st) \<noteq> Some Connected then []
      else [PublishData update True DOC_TOPIC])"

text \<open>
  \<^verbatim>\<open>handleDataReceived(payload, participant, _kind, topic)\<close>. The loopback guard compares
  \<^verbatim>\<open>participant?.identity\<close> with \<^verbatim>\<open>this.localParticipant?.identity\<close>. Updates are applied
  with the provider as origin, so \<^verbatim>\<open>handleLocalUpdate\<close> does not publish them again. In
  the \<^verbatim>\<open>sync-response\<close> branch the flag is set after \<^verbatim>\<open>Y.applyUpdate\<close> returns; when
  the call throws, control goes to the \<^verbatim>\<open>catch\<close> and the flag stays as it was. The
  listeners that the awareness object notifies are outside this model.
\<close>

definition handleDataReceived ::
  "('doc, 'aw, 'p) library \<Rightarrow> 'p \<Rightarrow> string option \<Rightarrow> string option \<Rightarrow> ('doc, 'aw) provider
     \<Rightarrow> ('doc, 'aw) provider \<times> 'p effect list" where
  "handleDataReceived lib payload participant topic st =
     (if participant = this_localParticipant st then (st, [])
      else if topic = Some DOC_TOPIC then
        (case Y_applyUpdate lib (this_doc st) payload of
           Returned d \<Rightarrow> (st\<lparr>this_doc := d\<rparr>, [])
         | Thrown d \<Rightarrow>
             (st\<lparr>this_doc := d\<rparr>, [Console_error ''[LiveKitProvider] Error processing data:'']))
      else if topic = Some AWARENESS_TOPIC then
        (case applyAwarenessUpdate lib (this_awareness st) payload participant of
           Returned a \<Rightarrow> (st\<lparr>this_awareness := a\<rparr>, [])
         | Thrown a \<Rightarrow>
             (st\<lparr>this_awareness := a\<rparr>, [Console_error ''[LiveKitProvider] Error processing data:'']))
      else if topic = Some SYNC_REQUEST_TOPIC then (st, sendFullState lib st)
      else if topic = Some SYNC_RESPONSE_TOPIC then
        (if \<not> this_synced st then
           (case Y_applyUpdate lib (this_doc st) payload of
              Returned d \<Rightarrow>
                (st\<lparr>this_doc := d, this_synced := True\<rparr>,
                 [Console_log ''[LiveKitProvider] Synced with existing state''])
            | Thrown d \<Rightarrow>
                (st\<lparr>this_doc := d\<rparr>, [Console_error ''[LiveKitProvider] Error processing data:'']))
         else (st, []))
      else (st, []))"

text \<open>
  The life of a provider: \<^verbatim>\<open>connect\<close>, \<^verbatim>\<open>disconnect\<close>, and packets (payload, sender,
  topic) arriving from the room. \<^verbatim>\<open>connect\<close> registers \<^verbatim>\<open>handleDataReceived\<close> as the
  room's listener and \<^verbatim>\<open>disconnect\<close> removes it, so a packet reaches the handler only
  while the provider is connected. A connection lifetime is a stretch of events
  without a \<^verbatim>\<open>disconnect\<close>.
\<close>

datatype 'p provider_event =
    Connect room string
  | Disconnect
  | DataReceived 'p "string option" "string option"

fun provider_step ::
  "('doc, 'aw, 'p) library \<Rightarrow> 'p provider_event \<Rightarrow> ('doc, 'aw) provider
     \<Rightarrow> ('doc, 'aw) provider \<times> 'p effect list" where
  "provider_step lib (Connect rm localParticipant) st = connect rm localParticipant st"
| "provider_step lib Disconnect st = disconnect st"
| "provider_step lib (DataReceived payload participant topic) st =
     (if this_connected st then handleDataReceived lib payload participant topic st else (st, []))"

fun provider_run ::
  "('doc, 'aw, 'p) library \<Rightarrow> 'p provider_event list \<Rightarrow> ('doc, 'aw) provider
     \<Rightarrow> ('doc, 'aw) provider \<times> 'p effect list" where
  "provider_run lib [] st = (st, [])"
| "provider_run lib (e # rest) st =
     (case provider_step lib e st of
        (st', es) \<Rightarrow>
          (case provider_run lib rest st' of (st'', es') \<Rightarrow> (st'', es @ es')))"

text \<open>A packet on the \<^verbatim>\<open>sync-response\<close> topic.\<close>

fun is_sync_response :: "'p provider_event \<Rightarrow> bool" where
  "is_sync_response (DataReceived payload participant topic) = (topic = Some SYNC_RESPONSE_TOPIC)"
| "is_sync_response e = False"

text \<open>
  How often a run applied a snapshot: the handler logs one line each time it does, and
  nowhere else.
\<close>

definition snapshots_applied :: "'p effect list \<Rightarrow> nat" where
  "snapshots_applied es =
     length (filter (\<lambda>e. e = Console_log ''[LiveKitProvider] Synced with existing state'') es)"

subsection \<open>The synced flag\<close>

lemma snapshots_applied_append:
  "snapshots_applied (es @ es') = snapshots_applied es + snapshots_applied es'"
  by (simp add: snapshots_applied_def)

lemma snapshots_applied_sendFullState: "snapshots_applied (sendFullState lib st) = 0"
  by (simp add: snapshots_applied_def sendFullState_def)

lemma handleDataReceived_synced:
  "this_synced st \<Longrightarrow>
   this_synced (fst (handleDataReceived lib payload participant topic st)) \<and>
   snapshots_applied (snd (handleDataReceived lib payload participant topic st)) = 0"
  by (simp add: handleDataReceived_def snapshots_applied_sendFullState split: outcome.splits)
     (simp add: snapshots_applied_def)

lemma handleDataReceived_unsynced:
  "snapshots_applied (snd (handleDataReceived lib payload participant topic st)) = 0 \<or>
   snapshots_applied (snd (handleDataReceived lib payload participant topic st)) = 1 \<and>
   this_synced (fst (handleDataReceived lib payload participant topic st))"
  by (simp add: handleDataReceived_def snapshots_applied_sendFullState split: outcome.splits)
     (simp add: snapshots_applied_def)

lemma handleDataReceived_keeps_connection:
  "this_connected (fst (handleDataReceived lib payload participant topic st)) = this_connected st \<and>
   this_localParticipant (fst (handleDataReceived lib payload participant topic st)) =
     this_localParticipant st"
  by (simp add: handleDataReceived_def split: outcome.splits)

lemma handleDataReceived_other_topic:
  "topic \<noteq> Some SYNC_RESPONSE_TOPIC \<Longrightarrow>
   this_synced (fst (handleDataReceived lib payload participant topic st)) = this_synced st"
  by (simp add: handleDataReceived_def split: outcome.splits)

text \<open>Within a lifetime the flag, once set, stays set, and nothing more is applied.\<close>

lemma provider_step_synced:
  assumes "this_synced st" and "e \<noteq> Disconnect"
  shows "this_synced (fst (provider_step lib e st)) \<and>
     snapshots_applied (snd (provider_step lib e st)) = 0"
proof (cases e)
  case (Connect rm localParticipant)
  with assms show ?thesis by (simp add: connect_def snapshots_applied_def)
next
  case Disconnect
  with assms show ?thesis by simp
next
  case (DataReceived payload participant topic)
  with assms handleDataReceived_synced [of st lib payload participant topic] show ?thesis
    by (simp add: snapshots_applied_def)
qed

lemma provider_step_unsynced:
  assumes "e \<noteq> Disconnect"
  shows "snapshots_applied (snd (provider_step lib e st)) = 0 \<or>
     snapshots_applied (snd (provider_step lib e st)) = 1 \<and> this_synced (fst (provider_step lib e st))"
proof (cases e)
  case (Connect rm localParticipant)
  then show ?thesis by (simp add: connect_def snapshots_applied_def)
next
  case Disconnect
  with assms show ?thesis by simp
next
  case (DataReceived payload participant topic)
  with handleDataReceived_unsynced [of lib payload participant topic st] show ?thesis
    by (auto simp: snapshots_applied_def)
qed

lemma provider_run_synced:
  "this_synced st \<Longrightarrow> Disconnect \<notin> set evs \<Longrightarrow>
   this_synced (fst (provider_run lib evs st)) \<and>
   snapshots_applied (snd (provider_run lib evs st)) = 0"
proof (induction evs arbitrary: st)
  case Nil
  then show ?case by (simp add: snapshots_applied_def)
next
  case (Cons e evs)
  from Cons.prems have "e \<noteq> Disconnect" and rest: "Disconnect \<notin> set evs" by auto
  from provider_step_synced [OF Cons.prems(1) this(1), of lib]
  have "this_synced (fst (provider_step lib e st))"
    and "snapshots_applied (snd (provider_step lib e st)) = 0" by simp_all
  with Cons.IH [OF _ rest, of "fst (provider_step lib e st)"] show ?case
    by (simp add: split_beta snapshots_applied_append)
qed

lemma provider_run_at_most_once:
  "Disconnect \<notin> set evs \<Longrightarrow> snapshots_applied (snd (provider_run lib evs st)) \<le> 1"
proof (induction evs arbitrary: st)
  case Nil
  then show ?case by (simp add: snapshots_applied_def)
next
  case (Cons e evs)
  from Cons.prems have e: "e \<noteq> Disconnect" and rest: "Disconnect \<notin> set evs" by auto
  from provider_step_unsynced [OF e, of lib st]
  consider "snapshots_applied (snd (provider_step lib e st)) = 0"
    | "snapshots_applied (snd (provider_step lib e st)) = 1" "this_synced (fst (provider_step lib e st))"
    by auto
  then show ?case
  proof cases
    case 1
    with Cons.IH [OF rest, of "fst (provider_step lib e st)"] show ?thesis
      by (simp add: split_beta snapshots_applied_append)
  next
    case 2
    with provider_run_synced [OF 2(2) rest, of lib] show ?thesis
      by (simp add: split_beta snapshots_applied_append)
  qed
qed

text \<open>
  A provider that is not connected is not synced: the constructor leaves both flags
  unset and \<^verbatim>\<open>disconnect\<close> resets both. So every lifetime starts with the flag unset.
\<close>

lemma provider_step_synced_connected:
  assumes "this_synced st \<longrightarrow> this_connected st"
  shows "this_synced (fst (provider_step lib e st)) \<longrightarrow> this_connected (fst (provider_step lib e st))"
proof (cases e)
  case (Connect rm localParticipant)
  with assms show ?thesis by (simp add: connect_def)
next
  case Disconnect
  with assms show ?thesis by (auto simp: disconnect_def)
next
  case (DataReceived payload participant topic)
  with assms handleDataReceived_keeps_connection [of lib payload participant topic st]
  show ?thesis by auto
qed

lemma provider_run_synced_connected:
  "this_synced st \<longrightarrow> this_connected st \<Longrightarrow>
   this_synced (fst (provider_run lib evs st)) \<longrightarrow> this_connected (fst (provider_run lib evs st))"
proof (induction evs arbitrary: st)
  case Nil
  then show ?case by simp
next
  case (Cons e evs)
  from Cons.IH [OF provider_step_synced_connected [OF Cons.prems, of lib e]] show ?case
    by (simp add: split_beta)
qed

lemma lifetime_starts_unsynced:
  assumes "\<not> this_connected (fst (provider_run lib past (new_provider d a)))"
  shows "\<not> this_synced (fst (connect rm localParticipant (fst (provider_run lib past (new_provider d a))))) \<and>
     this_connected (fst (connect rm localParticipant (fst (provider_run lib past (new_provider d a))))) \<and>
     this_localParticipant (fst (connect rm localParticipant (fst (provider_run lib past (new_provider d a))))) =
       Some localParticipant"
proof -
  have "this_synced (new_provider d a) \<longrightarrow> this_connected (new_provider d a)"
    by (simp add: new_provider_def)
  from provider_run_synced_connected [OF this, of lib past] assms
  have "\<not> this_synced (fst (provider_run lib past (new_provider d a)))" by simp
  with assms show ?thesis by (simp add: connect_def)
qed

text \<open>Until the first \<^verbatim>\<open>sync-response\<close> of a lifetime the flag stays unset.\<close>

lemma provider_step_before_response:
  assumes "\<not> this_synced st \<and> this_connected st \<and> this_localParticipant st = Some lp"
    and "e \<noteq> Disconnect" and "\<not> is_sync_response e"
  shows "\<not> this_synced (fst (provider_step lib e st)) \<and> this_connected (fst (provider_step lib e st)) \<and>
     this_localParticipant (fst (provider_step lib e st)) = Some lp"
proof (cases e)
  case (Connect rm localParticipant)
  with assms show ?thesis by (simp add: connect_def)
next
  case Disconnect
  with assms show ?thesis by simp
next
  case (DataReceived payload participant topic)
  with assms handleDataReceived_keeps_connection [of lib payload participant topic st]
    handleDataReceived_other_topic [of topic lib payload participant st]
  show ?thesis by simp
qed

lemma provider_run_before_response:
  "\<not> this_synced st \<and> this_connected st \<and> this_localParticipant st = Some lp \<Longrightarrow>
   \<forall>e \<in> set pre. e \<noteq> Disconnect \<and> \<not> is_sync_response e \<Longrightarrow>
   \<not> this_synced (fst (provider_run lib pre st)) \<and> this_connected (fst (provider_run lib pre st)) \<and>
   this_localParticipant (fst (provider_run lib pre st)) = Some lp"
proof (induction pre arbitrary: st)
  case Nil
  then show ?case by simp
next
  case (Cons e pre)
  from Cons.prems(2) have e: "e \<noteq> Disconnect" "\<not> is_sync_response e"
    and rest: "\<forall>e \<in> set pre. e \<noteq> Disconnect \<and> \<not> is_sync_response e" by simp_all
  from Cons.IH [OF provider_step_before_response [OF Cons.prems(1) e, of lib] rest] show ?case
    by (simp add: split_beta)
qed

lemma sync_response_unsynced:
  assumes "\<not> this_synced st" and "this_connected st" and "participant \<noteq> this_localParticipant st"
  shows "provider_step lib (DataReceived payload participant (Some SYNC_RESPONSE_TOPIC)) st =
     (case Y_applyUpdate lib (this_doc st) payload of
        Returned d \<Rightarrow>
          (st\<lparr>this_doc := d, this_synced := True\<rparr>,
           [Console_log ''[LiveKitProvider] Synced with existing state''])
      | Thrown d \<Rightarrow>
          (st\<lparr>this_doc := d\<rparr>, [Console_error ''[LiveKitProvider] Error processing data:'']))"
  using assms
  by (simp add: handleDataReceived_def DOC_TOPIC_def AWARENESS_TOPIC_def SYNC_REQUEST_TOPIC_def
      SYNC_RESPONSE_TOPIC_def)

lemma sync_response_synced:
  "this_synced st \<Longrightarrow>
   handleDataReceived lib payload participant (Some SYNC_RESPONSE_TOPIC) st = (st, [])"
  by (simp add: handleDataReceived_def DOC_TOPIC_def AWARENESS_TOPIC_def SYNC_REQUEST_TOPIC_def
      SYNC_RESPONSE_TOPIC_def)

text \<open>
  Claim C3, as amended. A connection lifetime starts when \<^verbatim>\<open>connect\<close> is called on a
  provider that is not connected, whatever happened to it before (\<open>past\<close>), and it
  starts with the synced flag unset. The first \<^verbatim>\<open>sync-response\<close> of the lifetime that
  comes from a remote identity is passed to \<^verbatim>\<open>Y.applyUpdate\<close>: if the call returns,
  its result becomes the document and the flag is set; if it throws, the error is
  logged and the flag stays unset. While the flag is set, every \<^verbatim>\<open>sync-response\<close>
  leaves the provider, and so the document, unchanged, and the flag stays set for the
  rest of the lifetime. Over any lifetime a snapshot is applied at most once.
\<close>

theorem sync_response_applied_once:
  assumes "\<not> this_connected (fst (provider_run lib past (new_provider d a)))"
    and "st0 = fst (connect rm localParticipant (fst (provider_run lib past (new_provider d a))))"
    and "\<forall>e \<in> set pre. e \<noteq> Disconnect \<and> \<not> is_sync_response e"
    and "st1 = fst (provider_run lib pre st0)"
    and "participant \<noteq> Some localParticipant"
  shows "\<not> this_synced st0 \<and>
     (Y_applyUpdate lib (this_doc st1) payload = Returned d' \<longrightarrow>
        provider_step lib (DataReceived payload participant (Some SYNC_RESPONSE_TOPIC)) st1 =
          (st1\<lparr>this_doc := d', this_synced := True\<rparr>,
           [Console_log ''[LiveKitProvider] Synced with existing state''])) \<and>
     (Y_applyUpdate lib (this_doc st1) payload = Thrown d' \<longrightarrow>
        provider_step lib (DataReceived payload participant (Some SYNC_RESPONSE_TOPIC)) st1 =
          (st1\<lparr>this_doc := d'\<rparr>, [Console_error ''[LiveKitProvider] Error processing data:''])) \<and>
     (this_synced st \<longrightarrow>
        handleDataReceived lib payload' participant' (Some SYNC_RESPONSE_TOPIC) st = (st, [])) \<and>
     (this_synced st \<and> Disconnect \<notin> set evs \<longrightarrow>
        this_synced (fst (provider_run lib evs st)) \<and>
        snapshots_applied (snd (provider_run lib evs st)) = 0) \<and>
     (Disconnect \<notin> set evs \<longrightarrow> snapshots_applied (snd (provider_run lib evs st)) \<le> 1)"
proof -
  from lifetime_starts_unsynced [OF assms(1), of rm localParticipant]
  have start: "\<not> this_synced st0 \<and> this_connected st0 \<and> this_localParticipant st0 = Some localParticipant"
    unfolding assms(2) by simp
  from provider_run_before_response [OF start assms(3), of lib]
  have st1: "\<not> this_synced st1" "this_connected st1" "this_localParticipant st1 = Some localParticipant"
    unfolding assms(4) by simp_all
  with assms(5) have remote: "participant \<noteq> this_localParticipant st1" by simp
  from sync_response_unsynced [OF st1(1,2) remote, of lib payload]
  have first: "provider_step lib (DataReceived payload participant (Some SYNC_RESPONSE_TOPIC)) st1 =
     (case Y_applyUpdate lib (this_doc st1) payload of
        Returned d \<Rightarrow>
          (st1\<lparr>this_doc := d, this_synced := True\<rparr>,
           [Console_log ''[LiveKitProvider] Synced with existing state''])
      | Thrown d \<Rightarrow>
          (st1\<lparr>this_doc := d\<rparr>, [Console_error ''[LiveKitProvider] Error processing data:'']))" .
  show ?thesis
  proof (intro conjI impI)
    show "\<not> this_synced st0" using start by simp
  next
    assume "Y_applyUpdate lib (this_doc st1) payload = Returned d'"
    with first show "provider_step lib (DataReceived payload participant (Some SYNC_RESPONSE_TOPIC)) st1 =
          (st1\<lparr>this_doc := d', this_synced := True\<rparr>,
           [Console_log ''[LiveKitProvider] Synced with existing state''])"
      by simp
  next
    assume "Y_applyUpdate lib (this_doc st1) payload = Thrown d'"
    with first show "provider_step lib (DataReceived payload participant (Some SYNC_RESPONSE_TOPIC)) st1 =
          (st1\<lparr>this_doc := d'\<rparr>, [Console_error ''[LiveKitProvider] Error processing data:''])"
      by simp
  next
    assume "this_synced st"
    then show "handleDataReceived lib payload' participant' (Some SYNC_RESPONSE_TOPIC) st = (st, [])"
      by (rule sync_response_synced)
  next
    assume "this_synced st \<and> Disconnect \<notin> set evs"
    then show "this_synced (fst (provider_run lib evs st))"
      by (simp add: provider_run_synced)
  next
    assume "this_synced st \<and> Disconnect \<notin> set evs"
    then show "snapshots_applied (snd (provider_run lib evs st)) = 0"
      by (simp add: provider_run_synced)
  next
    assume "Disconnect \<notin> set evs"
    then show "snapshots_applied (snd (provider_run lib evs st)) \<le> 1"
      by (rule provider_run_at_most_once)
  qed
qed

text \<open>A library and a connected provider for the examples.\<close>

definition sample_library :: "(string list, string list, string) library" where
  "sample_library =
     \<lparr>Y_applyUpdate = (\<lambda>d p. if p = ''corrupt'' then Thrown d else Returned (d @ [p])),
      applyAwarenessUpdate = (\<lambda>a p who. Returned (a @ [p])),
      Y_encodeStateAsUpdate = concat,
      sync_request_bytes = ''sync-request''\<rparr>"

definition alice_provider :: "(string list, string list) provider" where
  "alice_provider =
     \<lparr>this_doc = [], this_awareness = [], this_room = Some room_alice,
      this_localParticipant = Some ''alice'', this_connected = True, this_synced = False\<rparr>"

lemma alice_provider_connect:
  "connect room_alice ''alice'' (new_provider [] []) =
     (alice_provider, [Console_log ''[LiveKitProvider] Connected to room''])"
  by (simp add: connect_def new_provider_def alice_provider_def)

text \<open>
  An instance, in the second lifetime of a provider. In the first, bob's snapshot
  \<open>S1\<close> was applied; after \<^verbatim>\<open>disconnect\<close> and \<^verbatim>\<open>connect\<close> the flag is unset again, a
  document update arrives, and carol's snapshot \<open>S2\<close>, the first of this lifetime, is
  applied and sets the flag.
\<close>

theorem sync_response_applied_once_example:
  "fst (provider_run sample_library
     [Connect room_alice ''alice'', DataReceived ''S1'' (Some ''bob'') (Some SYNC_RESPONSE_TOPIC),
      Disconnect] (new_provider [] [])) =
     \<lparr>this_doc = [''S1''], this_awareness = [], this_room = None, this_localParticipant = None,
      this_connected = False, this_synced = False\<rparr> \<and>
   provider_step sample_library (DataReceived ''S2'' (Some ''carol'') (Some SYNC_RESPONSE_TOPIC))
     (alice_provider\<lparr>this_doc := [''S1'', ''u'']\<rparr>) =
     (alice_provider\<lparr>this_doc := [''S1'', ''u'', ''S2''], this_synced := True\<rparr>,
      [Console_log ''[LiveKitProvider] Synced with existing state''])"
proof -
  have past: "fst (provider_run sample_library
     [Connect room_alice ''alice'', DataReceived ''S1'' (Some ''bob'') (Some SYNC_RESPONSE_TOPIC),
      Disconnect] (new_provider [] [])) =
     \<lparr>this_doc = [''S1''], this_awareness = [], this_room = None, this_localParticipant = None,
      this_connected = False, this_synced = False\<rparr>"
    by (simp add: connect_def disconnect_def new_provider_def handleDataReceived_def
        sample_library_def DOC_TOPIC_def AWARENESS_TOPIC_def SYNC_REQUEST_TOPIC_def
        SYNC_RESPONSE_TOPIC_def)
  have off: "\<not> this_connected (fst (provider_run sample_library
     [Connect room_alice ''alice'', DataReceived ''S1'' (Some ''bob'') (Some SYNC_RESPONSE_TOPIC),
      Disconnect] (new_provider [] [])))"
    unfolding past by simp
  have st0: "alice_provider\<lparr>this_doc := [''S1'']\<rparr> =
      fst (connect room_alice ''alice'' (fst (provider_run sample_library
     [Connect room_alice ''alice'', DataReceived ''S1'' (Some ''bob'') (Some SYNC_RESPONSE_TOPIC),
      Disconnect] (new_provider [] []))))"
    unfolding past by (simp add: connect_def alice_provider_def)
  have pre: "\<forall>e \<in> set [DataReceived ''u'' (Some ''bob'') (Some DOC_TOPIC)].
      e \<noteq> Disconnect \<and> \<not> is_sync_response e"
    by (simp add: DOC_TOPIC_def SYNC_RESPONSE_TOPIC_def)
  have st1: "alice_provider\<lparr>this_doc := [''S1'', ''u'']\<rparr> =
      fst (provider_run sample_library [DataReceived ''u'' (Some ''bob'') (Some DOC_TOPIC)]
             (alice_provider\<lparr>this_doc := [''S1'']\<rparr>))"
    by (simp add: handleDataReceived_def alice_provider_def sample_library_def DOC_TOPIC_def)
  have remote: "Some ''carol'' \<noteq> Some ''alice''"
    by simp
  have applied: "Y_applyUpdate sample_library (this_doc (alice_provider\<lparr>this_doc := [''S1'', ''u'']\<rparr>))
      ''S2'' = Returned [''S1'', ''u'', ''S2'']"
    by (simp add: sample_library_def)
  from sync_response_applied_once [OF off st0 pre st1 remote,
      where payload = "''S2''" and d' = "[''S1'', ''u'', ''S2'']"] applied past
  show ?thesis by simp
qed

text \<open>
  The claim as stated says that the first \<^verbatim>\<open>sync-response\<close> from a remote identity is
  applied and sets the flag. That fails for a response that \<^verbatim>\<open>Y.applyUpdate\<close> rejects:
  bob's payload makes the call throw, the \<^verbatim>\<open>catch\<close> logs the error, and the provider
  is as it was, flag unset. The second response, carol's, is the one that is applied.
\<close>

theorem first_sync_response_thrown:
  "provider_run sample_library
     [Connect room_alice ''alice'',
      DataReceived ''corrupt'' (Some ''bob'') (Some SYNC_RESPONSE_TOPIC)] (new_provider [] []) =
     (alice_provider,
      [Console_log ''[LiveKitProvider] Connected to room'',
       Console_error ''[LiveKitProvider] Error processing data:'']) \<and>
   provider_run sample_library
     [Connect room_alice ''alice'',
      DataReceived ''corrupt'' (Some ''bob'') (Some SYNC_RESPONSE_TOPIC),
      DataReceived ''S2'' (Some ''carol'') (Some SYNC_RESPONSE_TOPIC)] (new_provider [] []) =
     (alice_provider\<lparr>this_doc := [''S2''], this_synced := True\<rparr>,
      [Console_log ''[LiveKitProvider] Connected to room'',
       Console_error ''[LiveKitProvider] Error processing data:'',
       Console_log ''[LiveKitProvider] Synced with existing state''])"
  by (simp add: connect_def new_provider_def alice_provider_def handleDataReceived_def
      sample_library_def DOC_TOPIC_def AWARENESS_TOPIC_def SYNC_REQUEST_TOPIC_def
      SYNC_RESPONSE_TOPIC_def)

section \<open>Cursor presence\<close>

text \<open>
  A cursor position \<^verbatim>\<open>{x, y}\<close>, a remote cursor (the position with the sender's
  identity, a colour and the time it was received, in milliseconds), and the cursor
  map: a JavaScript object keyed by identity, kept as an association list in insertion
  order, which is the order \<^verbatim>\<open>for ... in\<close> visits.
\<close>

record 'n CursorPosition =
  pos_x :: 'n
  pos_y :: 'n

record 'n ParticipantCursor = "'n CursorPosition" +
  cursor_identity :: string
  cursor_color :: string
  cursor_timestamp :: int

type_synonym 'n CursorMap = "(string \<times> 'n ParticipantCursor) list"

definition CURSOR_COLORS :: "string list" where
  "CURSOR_COLORS =
     [''#ef4444'', ''#f97316'', ''#eab308'', ''#22c55e'', ''#06b6d4'', ''#3b82f6'', ''#8b5cf6'',
      ''#ec4899'']"

definition PRESENCE_TOPIC :: string where
  "PRESENCE_TOPIC = ''cursor-presence''"

definition BROADCAST_INTERVAL_MS :: int where
  "BROADCAST_INTERVAL_MS = 33"

definition CURSOR_STALE_MS :: int where
  "CURSOR_STALE_MS = 3000"

text \<open>
  \<^verbatim>\<open>getParticipantColor\<close>. In \<^verbatim>\<open>charCode + ((hash << 5) - hash)\<close> the shift converts
  \<^verbatim>\<open>hash\<close> to a signed 32-bit integer and wraps; the subtraction and the addition are
  on numbers and do not wrap (they are exact for any identity of realistic length).
  Characters are taken with their codes below 256.
\<close>

definition shift_left_5 :: "int \<Rightarrow> int" where
  "shift_left_5 hash = sint (push_bit 5 (word_of_int hash :: 32 word))"

fun hash_loop :: "int \<Rightarrow> string \<Rightarrow> int" where
  "hash_loop hash [] = hash"
| "hash_loop hash (c # cs) = hash_loop (of_char c + (shift_left_5 hash - hash)) cs"

definition getParticipantColor :: "string \<Rightarrow> string" where
  "getParticipantColor ident = CURSOR_COLORS ! (nat \<bar>hash_loop 0 ident\<bar> mod length CURSOR_COLORS)"

text \<open>
  The sweep that runs every second with \<open>now = Date.now()\<close>: copy the map, visit the
  keys of the copy, delete the entries older than \<^verbatim>\<open>CURSOR_STALE_MS\<close>, and return the
  copy if anything was deleted, the previous map otherwise. Keys of an object are
  unique, so the lookup at a visited key finds its entry; the model skips a key it
  does not find.
\<close>

fun sweep_loop :: "int \<Rightarrow> string list \<Rightarrow> 'n CursorMap \<times> bool \<Rightarrow> 'n CursorMap \<times> bool" where
  "sweep_loop now [] (updated, hasChanges) = (updated, hasChanges)"
| "sweep_loop now (ident # rest) (updated, hasChanges) =
     (case map_of updated ident of
        None \<Rightarrow> sweep_loop now rest (updated, hasChanges)
      | Some c \<Rightarrow>
          if now - cursor_timestamp c > CURSOR_STALE_MS
          then sweep_loop now rest (AList.delete ident updated, True)
          else sweep_loop now rest (updated, hasChanges))"

definition sweep :: "int \<Rightarrow> 'n CursorMap \<Rightarrow> 'n CursorMap" where
  "sweep now prev =
     (case sweep_loop now (map fst prev) (prev, False) of
        (updated, hasChanges) \<Rightarrow> if hasChanges then updated else prev)"

text \<open>
  \<^verbatim>\<open>handleData\<close> of the hook. \<open>localParticipant\<close> is \<^verbatim>\<open>localParticipant?.identity\<close>. The
  state update dereferences \<^verbatim>\<open>participant\<close>; when there is none, that is a TypeError
  inside React's state update, outside the \<^verbatim>\<open>try\<close> block, which the model records as
  uncaught.
\<close>

definition presence_handleData_try ::
  "('p \<Rightarrow> 'n CursorPosition option) \<Rightarrow> 'p \<Rightarrow> exn + 'n CursorPosition" where
  "presence_handleData_try JSON_parse payload =
     (case JSON_parse payload of None \<Rightarrow> Inl SyntaxError | Some data \<Rightarrow> Inr data)"

definition presence_handleData ::
  "('p \<Rightarrow> 'n CursorPosition option) \<Rightarrow> string option \<Rightarrow> int \<Rightarrow> 'p \<Rightarrow> string option \<Rightarrow> string option
     \<Rightarrow> 'n CursorMap \<Rightarrow> 'n CursorMap \<times> 'p effect list" where
  "presence_handleData JSON_parse localParticipant now payload participant topic cursors =
     (if topic \<noteq> Some PRESENCE_TOPIC then (cursors, [])
      else if participant = localParticipant then (cursors, [])
      else case presence_handleData_try JSON_parse payload of
             Inl err \<Rightarrow> (cursors, [Console_error ''[usePresence] Failed to parse cursor data:''])
           | Inr data \<Rightarrow>
               (case participant of
                  None \<Rightarrow> (cursors, [Uncaught TypeError])
                | Some ident \<Rightarrow>
                    (AList.update ident
                       \<lparr>pos_x = pos_x data, pos_y = pos_y data, cursor_identity = ident,
                        cursor_color = getParticipantColor ident, cursor_timestamp = now\<rparr>
                       cursors, [])))"

definition handleParticipantDisconnected :: "string \<Rightarrow> 'n CursorMap \<Rightarrow> 'n CursorMap" where
  "handleParticipantDisconnected ident cursors = AList.delete ident cursors"

text \<open>
  The broadcaster. Its three refs, and the counter from which the browser draws the
  handles that \<^verbatim>\<open>requestAnimationFrame\<close> returns.
\<close>

record 'n broadcaster =
  lastBroadcastRef :: int
  pendingPositionRef :: "'n CursorPosition option"
  animationFrameRef :: "nat option"
  next_frame_handle :: nat

definition initial_broadcaster :: "'n broadcaster" where
  "initial_broadcaster =
     \<lparr>lastBroadcastRef = 0, pendingPositionRef = None, animationFrameRef = None,
      next_frame_handle = 1\<rparr>"

text \<open>
  \<^verbatim>\<open>broadcastCursor(position)\<close>: remember the position; request a frame unless one is
  already requested. \<open>localParticipant\<close> says whether there is a local participant.
\<close>

definition broadcastCursor :: "bool \<Rightarrow> bool \<Rightarrow> 'n CursorPosition \<Rightarrow> 'n broadcaster \<Rightarrow> 'n broadcaster" where
  "broadcastCursor enabled localParticipant position st =
     (if \<not> enabled \<or> \<not> localParticipant then st
      else if animationFrameRef st \<noteq> None then st\<lparr>pendingPositionRef := Some position\<rparr>
      else st\<lparr>pendingPositionRef := Some position,
              animationFrameRef := Some (next_frame_handle st),
              next_frame_handle := next_frame_handle st + 1\<rparr>)"

text \<open>
  The callback that the browser runs on the requested frame, with \<open>now = Date.now()\<close>:
  it clears the handle, returns if the last send is less than
  \<^verbatim>\<open>BROADCAST_INTERVAL_MS\<close> old or nothing is pending, and otherwise stamps the send and
  publishes the pending position, unreliably. It requests no further frame.
\<close>

definition frameCallback ::
  "('n CursorPosition \<Rightarrow> 'p) \<Rightarrow> int \<Rightarrow> 'n broadcaster \<Rightarrow> 'n broadcaster \<times> 'p effect list" where
  "frameCallback JSON_stringify now st =
     (if now - lastBroadcastRef st < BROADCAST_INTERVAL_MS then (st\<lparr>animationFrameRef := None\<rparr>, [])
      else case pendingPositionRef st of
             None \<Rightarrow> (st\<lparr>animationFrameRef := None\<rparr>, [])
           | Some pos \<Rightarrow>
               (st\<lparr>animationFrameRef := None, lastBroadcastRef := now\<rparr>,
                [PublishData (JSON_stringify pos) False PRESENCE_TOPIC]))"

text \<open>
  What happens to the broadcaster: a call of \<^verbatim>\<open>broadcastCursor\<close>, or an animation
  frame at clock reading \<open>now\<close>, on which the browser runs the callback if one was
  requested. A run returns the final state and the sends, each with the clock reading
  it was stamped with.
\<close>

datatype 'n presence_event = BroadcastCursor "'n CursorPosition" | AnimationFrame int

fun presence_step ::
  "('n CursorPosition \<Rightarrow> 'p) \<Rightarrow> bool \<Rightarrow> bool \<Rightarrow> 'n presence_event \<Rightarrow> 'n broadcaster
     \<Rightarrow> 'n broadcaster \<times> (int \<times> 'p) list" where
  "presence_step JSON_stringify enabled localParticipant (BroadcastCursor position) st =
     (broadcastCursor enabled localParticipant position st, [])"
| "presence_step JSON_stringify enabled localParticipant (AnimationFrame now) st =
     (if animationFrameRef st = None then (st, [])
      else case frameCallback JSON_stringify now st of
             (st', es) \<Rightarrow> (st', map (Pair now) (published es)))"

fun presence_run ::
  "('n CursorPosition \<Rightarrow> 'p) \<Rightarrow> bool \<Rightarrow> bool \<Rightarrow> 'n presence_event list \<Rightarrow> 'n broadcaster
     \<Rightarrow> 'n broadcaster \<times> (int \<times> 'p) list" where
  "presence_run JSON_stringify enabled localParticipant [] st = (st, [])"
| "presence_run JSON_stringify enabled localParticipant (e # es) st =
     (case presence_step JSON_stringify enabled localParticipant e st of
        (st', sent) \<Rightarrow>
          (case presence_run JSON_stringify enabled localParticipant es st' of
             (st'', sent') \<Rightarrow> (st'', sent @ sent')))"

text \<open>Every send comes at least \<^verbatim>\<open>BROADCAST_INTERVAL_MS\<close> after the one before it.\<close>

fun spaced :: "int \<Rightarrow> int list \<Rightarrow> bool" where
  "spaced t0 [] = True"
| "spaced t0 (t # ts) = (t - t0 \<ge> BROADCAST_INTERVAL_MS \<and> spaced t ts)"

subsection \<open>The stale-cursor sweep\<close>

lemma sweep_loop_lookup:
  "map_of (fst (sweep_loop now ks (updated, hasChanges))) k =
     (case map_of updated k of
        None \<Rightarrow> None
      | Some c \<Rightarrow> if k \<in> set ks \<and> now - cursor_timestamp c > CURSOR_STALE_MS then None else Some c)"
proof (induction ks arbitrary: updated hasChanges)
  case Nil
  then show ?case by (simp split: option.splits)
next
  case (Cons a ks)
  show ?case
  proof (cases "map_of updated a")
    case None
    then show ?thesis
      using Cons.IH [of updated hasChanges] by (auto split: option.splits)
  next
    case (Some c)
    show ?thesis
    proof (cases "now - cursor_timestamp c > CURSOR_STALE_MS")
      case True
      with Some show ?thesis
        using Cons.IH [of "AList.delete a updated" True]
        by (auto simp: delete_conv' split: option.splits)
    next
      case False
      with Some show ?thesis
        using Cons.IH [of updated hasChanges] by (auto split: option.splits)
    qed
  qed
qed

lemma sweep_loop_flag_set: "snd (sweep_loop now ks (updated, True))"
  by (induction ks arbitrary: updated) (simp_all split: option.splits)

lemma sweep_loop_no_changes:
  "\<not> snd (sweep_loop now ks (updated, hasChanges)) \<Longrightarrow>
   fst (sweep_loop now ks (updated, hasChanges)) = updated"
proof (induction ks arbitrary: updated hasChanges)
  case Nil
  then show ?case by simp
next
  case (Cons a ks)
  show ?case
  proof (cases "map_of updated a")
    case None
    with Cons show ?thesis by simp
  next
    case (Some c)
    show ?thesis
    proof (cases "now - cursor_timestamp c > CURSOR_STALE_MS")
      case True
      with Some Cons.prems show ?thesis
        by (simp add: sweep_loop_flag_set)
    next
      case False
      with Some Cons show ?thesis by simp
    qed
  qed
qed

lemma sweep_lookup:
  "map_of (sweep now prev) k =
     (case map_of prev k of
        None \<Rightarrow> None
      | Some c \<Rightarrow> if now - cursor_timestamp c > CURSOR_STALE_MS then None else Some c)"
proof -
  obtain updated hasChanges where loop: "sweep_loop now (map fst prev) (prev, False) = (updated, hasChanges)"
    by (cases "sweep_loop now (map fst prev) (prev, False)")
  have keys: "map_of prev k = Some c \<Longrightarrow> k \<in> set (map fst prev)" for c
    by (metis map_of_eq_None_iff option.distinct(1) set_map)
  have looked: "map_of updated k =
     (case map_of prev k of
        None \<Rightarrow> None
      | Some c \<Rightarrow> if now - cursor_timestamp c > CURSOR_STALE_MS then None else Some c)"
    using sweep_loop_lookup [of now "map fst prev" prev False k] loop keys
    by (auto split: option.splits)
  show ?thesis
  proof (cases hasChanges)
    case True
    with loop looked show ?thesis by (simp add: sweep_def)
  next
    case False
    with loop sweep_loop_no_changes [of now "map fst prev" prev False]
    have "updated = prev" by simp
    with loop looked False show ?thesis by (simp add: sweep_def)
  qed
qed

text \<open>
  Claim C6. After one sweep at clock reading \<open>now\<close>, an entry whose timestamp is more
  than 3000 ms older than \<open>now\<close> is absent from the map, an entry whose timestamp is at
  most 3000 ms old is still there with the same cursor, and no entry appears that was
  not there before.
\<close>

theorem sweep_removes_stale:
  "(map_of prev ident = Some c \<and> now - cursor_timestamp c > 3000 \<longrightarrow>
      map_of (sweep now prev) ident = None) \<and>
   (map_of prev ident = Some c \<and> now - cursor_timestamp c \<le> 3000 \<longrightarrow>
      map_of (sweep now prev) ident = Some c) \<and>
   (map_of prev ident = None \<longrightarrow> map_of (sweep now prev) ident = None)"
  by (simp add: sweep_lookup CURSOR_STALE_MS_def)

text \<open>An instance: at time 10000 the cursor stamped 6999 goes, the one stamped 7000 stays.\<close>

definition sample_cursor :: "string \<Rightarrow> int \<Rightarrow> int ParticipantCursor" where
  "sample_cursor ident t =
     \<lparr>pos_x = 0, pos_y = 1, cursor_identity = ident, cursor_color = getParticipantColor ident,
      cursor_timestamp = t\<rparr>"

theorem sweep_removes_stale_example:
  "map_of (sweep 10000 [(''bob'', sample_cursor ''bob'' 6999), (''carol'', sample_cursor ''carol'' 7000)])
     ''bob'' = None \<and>
   map_of (sweep 10000 [(''bob'', sample_cursor ''bob'' 6999), (''carol'', sample_cursor ''carol'' 7000)])
     ''carol'' = Some (sample_cursor ''carol'' 7000)"
proof -
  have stale: "map_of [(''bob'', sample_cursor ''bob'' 6999), (''carol'', sample_cursor ''carol'' 7000)]
      ''bob'' = Some (sample_cursor ''bob'' 6999) \<and>
      10000 - cursor_timestamp (sample_cursor ''bob'' 6999) > 3000"
    by (simp add: sample_cursor_def)
  have fresh: "map_of [(''bob'', sample_cursor ''bob'' 6999), (''carol'', sample_cursor ''carol'' 7000)]
      ''carol'' = Some (sample_cursor ''carol'' 7000) \<and>
      10000 - cursor_timestamp (sample_cursor ''carol'' 7000) \<le> 3000"
    by (simp add: sample_cursor_def)
  from sweep_removes_stale [of "[(''bob'', sample_cursor ''bob'' 6999), (''carol'', sample_cursor ''carol'' 7000)]"
      "''bob''" "sample_cursor ''bob'' 6999" 10000] stale
    sweep_removes_stale [of "[(''bob'', sample_cursor ''bob'' 6999), (''carol'', sample_cursor ''carol'' 7000)]"
      "''carol''" "sample_cursor ''carol'' 7000" 10000] fresh
  show ?thesis by blast
qed

subsection \<open>The broadcast throttle\<close>

text \<open>The positions passed to \<^verbatim>\<open>broadcastCursor\<close> in a run, in order.\<close>

fun positions :: "'n presence_event list \<Rightarrow> 'n CursorPosition list" where
  "positions [] = []"
| "positions (BroadcastCursor position # es) = position # positions es"
| "positions (AnimationFrame now # es) = positions es"

lemma positions_calls: "positions (map BroadcastCursor ps) = ps"
  by (induction ps) simp_all

lemma presence_run_append:
  "presence_run S en lp (xs @ ys) st =
     (case presence_run S en lp xs st of
        (st', sent) \<Rightarrow>
          (case presence_run S en lp ys st' of (st'', sent') \<Rightarrow> (st'', sent @ sent')))"
  by (induction xs arbitrary: st) (simp_all add: split_beta)

lemma broadcastCursor_fields:
  "lastBroadcastRef (broadcastCursor en lp position st) = lastBroadcastRef st"
  "en \<Longrightarrow> lp \<Longrightarrow> pendingPositionRef (broadcastCursor en lp position st) = Some position"
  "en \<Longrightarrow> lp \<Longrightarrow> animationFrameRef (broadcastCursor en lp position st) \<noteq> None"
  by (simp_all add: broadcastCursor_def)

lemma frameCallback_fields:
  "pendingPositionRef (fst (frameCallback S now st)) = pendingPositionRef st"
  by (simp add: frameCallback_def split: option.splits)

lemma presence_step_pending:
  "pendingPositionRef (fst (presence_step S True True e st)) =
     (case e of BroadcastCursor position \<Rightarrow> Some position | AnimationFrame now \<Rightarrow> pendingPositionRef st)"
  by (cases e) (simp_all add: broadcastCursor_fields frameCallback_fields split_beta)

lemma pending_after_run:
  "pendingPositionRef (fst (presence_run S True True evs st)) =
     (if positions evs = [] then pendingPositionRef st else Some (last (positions evs)))"
proof (induction evs arbitrary: st)
  case Nil
  then show ?case by simp
next
  case (Cons e evs)
  show ?case
    using Cons.IH [of "fst (presence_step S True True e st)"] presence_step_pending [of S e st]
    by (cases e) (simp_all add: split_beta)
qed

lemma calls_only:
  "snd (presence_run S en lp (map BroadcastCursor ps) st) = [] \<and>
   lastBroadcastRef (fst (presence_run S en lp (map BroadcastCursor ps) st)) = lastBroadcastRef st \<and>
   (en \<and> lp \<and> ps \<noteq> [] \<longrightarrow>
      animationFrameRef (fst (presence_run S en lp (map BroadcastCursor ps) st)) \<noteq> None)"
proof (induction ps arbitrary: st)
  case Nil
  then show ?case by simp
next
  case (Cons p ps)
  show ?case
  proof (cases ps)
    case Nil
    then show ?thesis by (simp add: broadcastCursor_fields)
  next
    case (Cons q qs)
    with Cons.IH [of "broadcastCursor en lp p st"] show ?thesis
      by (simp add: split_beta broadcastCursor_fields)
  qed
qed

lemma frame_step:
  "animationFrameRef st \<noteq> None \<Longrightarrow>
   snd (presence_step S en lp (AnimationFrame now) st) =
     (if now - lastBroadcastRef st < 33 then []
      else case pendingPositionRef st of None \<Rightarrow> [] | Some pos \<Rightarrow> [(now, S pos)])"
  by (auto simp: frameCallback_def BROADCAST_INTERVAL_MS_def split: option.splits)

lemma calls_then_frame:
  assumes "ps \<noteq> []"
  shows "snd (presence_run S True True (map BroadcastCursor ps @ [AnimationFrame now]) st) =
     (if now - lastBroadcastRef st < 33 then [] else [(now, S (last ps))])"
proof -
  let ?st = "fst (presence_run S True True (map BroadcastCursor ps) st)"
  have sent: "snd (presence_run S True True (map BroadcastCursor ps) st) = []"
    and last: "lastBroadcastRef ?st = lastBroadcastRef st"
    and frame: "animationFrameRef ?st \<noteq> None"
    using calls_only [of S True True ps st] assms by simp_all
  have pending: "pendingPositionRef ?st = Some (last ps)"
    using pending_after_run [of S "map BroadcastCursor ps" st] assms by (simp add: positions_calls)
  have "snd (presence_run S True True (map BroadcastCursor ps @ [AnimationFrame now]) st) =
      snd (presence_step S True True (AnimationFrame now) ?st)"
    using sent by (simp add: presence_run_append split_beta)
  also have "\<dots> = (if now - lastBroadcastRef st < 33 then [] else [(now, S (last ps))])"
    using frame_step [OF frame, of S True True now] last pending by simp
  finally show ?thesis .
qed

lemma presence_step_spaced:
  "(snd (presence_step S en lp e st) = [] \<and>
      lastBroadcastRef (fst (presence_step S en lp e st)) = lastBroadcastRef st) \<or>
   (\<exists>now payload. snd (presence_step S en lp e st) = [(now, payload)] \<and>
      now - lastBroadcastRef st \<ge> BROADCAST_INTERVAL_MS \<and>
      lastBroadcastRef (fst (presence_step S en lp e st)) = now)"
  by (cases e) (auto simp: broadcastCursor_fields frameCallback_def split: option.splits)

lemma sends_spaced:
  "spaced (lastBroadcastRef st) (map fst (snd (presence_run S en lp evs st)))"
proof (induction evs arbitrary: st)
  case Nil
  then show ?case by simp
next
  case (Cons e evs)
  from presence_step_spaced [of S en lp e st] Cons.IH [of "fst (presence_step S en lp e st)"]
  show ?case
    by (auto simp: split_beta)
qed

lemma frame_sends_latest:
  assumes "positions evs \<noteq> []"
  shows "snd (presence_run S True True (evs @ [AnimationFrame now]) st) =
           snd (presence_run S True True evs st) \<or>
         snd (presence_run S True True (evs @ [AnimationFrame now]) st) =
           snd (presence_run S True True evs st) @ [(now, S (last (positions evs)))]"
proof -
  let ?st = "fst (presence_run S True True evs st)"
  have pending: "pendingPositionRef ?st = Some (last (positions evs))"
    using pending_after_run [of S evs st] assms by simp
  have run: "snd (presence_run S True True (evs @ [AnimationFrame now]) st) =
      snd (presence_run S True True evs st) @ snd (presence_step S True True (AnimationFrame now) ?st)"
    by (simp add: presence_run_append split_beta)
  show ?thesis
  proof (cases "animationFrameRef ?st = None")
    case True
    with run show ?thesis by simp
  next
    case False
    from frame_step [OF False, of S True True now] pending run show ?thesis
      by (simp split: if_splits)
  qed
qed

text \<open>
  Claim C5, as amended. With broadcasting enabled and a local participant present:
  any number of \<^verbatim>\<open>broadcastCursor\<close> calls followed by one animation frame produce at most
  one send, which carries the position of the last call; the send happens exactly when
  the frame comes at least 33 ms after the previous send, and otherwise nothing is sent
  on that frame (and the callback requests no further frame). In every run, whatever
  the flags, each send is stamped at least 33 ms after the send before it. In
  particular 100 calls followed by the first frame after mount produce exactly one
  send carrying the last position. And in any run, a frame either sends nothing or
  sends the position of the most recent call: the latest pending position wins.
\<close>

theorem cursor_broadcast_throttled:
  "(ps \<noteq> [] \<longrightarrow>
      snd (presence_run S True True (map BroadcastCursor ps @ [AnimationFrame now]) st) =
        (if now - lastBroadcastRef st < 33 then [] else [(now, S (last ps))])) \<and>
   spaced (lastBroadcastRef st) (map fst (snd (presence_run S enabled localParticipant evs st))) \<and>
   (length ps = 100 \<and> now \<ge> 33 \<longrightarrow>
      snd (presence_run S True True (map BroadcastCursor ps @ [AnimationFrame now]) initial_broadcaster) =
        [(now, S (last ps))]) \<and>
   (positions evs \<noteq> [] \<longrightarrow>
      snd (presence_run S True True (evs @ [AnimationFrame now]) st) =
        snd (presence_run S True True evs st) \<or>
      snd (presence_run S True True (evs @ [AnimationFrame now]) st) =
        snd (presence_run S True True evs st) @ [(now, S (last (positions evs)))])"
proof (intro conjI impI)
  assume "ps \<noteq> []"
  then show "snd (presence_run S True True (map BroadcastCursor ps @ [AnimationFrame now]) st) =
        (if now - lastBroadcastRef st < 33 then [] else [(now, S (last ps))])"
    by (rule calls_then_frame)
next
  show "spaced (lastBroadcastRef st) (map fst (snd (presence_run S enabled localParticipant evs st)))"
    by (rule sends_spaced)
next
  assume h: "length ps = 100 \<and> now \<ge> 33"
  then have "ps \<noteq> []" by auto
  from calls_then_frame [OF this, of S now initial_broadcaster] h
  show "snd (presence_run S True True (map BroadcastCursor ps @ [AnimationFrame now]) initial_broadcaster) =
        [(now, S (last ps))]"
    by (simp add: initial_broadcaster_def)
next
  assume "positions evs \<noteq> []"
  then show "snd (presence_run S True True (evs @ [AnimationFrame now]) st) =
        snd (presence_run S True True evs st) \<or>
      snd (presence_run S True True (evs @ [AnimationFrame now]) st) =
        snd (presence_run S True True evs st) @ [(now, S (last (positions evs)))]"
    by (rule frame_sends_latest)
qed

text \<open>
  An instance: three calls in the first frame give one send with the third position;
  and of three frames at 5000, 5016 and 5033, the second is too early and sends
  nothing, the third sends the position pending then.
\<close>

definition sample_position :: "int \<Rightarrow> int CursorPosition" where
  "sample_position k = \<lparr>pos_x = k, pos_y = k\<rparr>"

lemma first_send:
  "presence_run id True True [BroadcastCursor (sample_position 0), AnimationFrame 1000] initial_broadcaster =
     (\<lparr>lastBroadcastRef = 1000, pendingPositionRef = Some (sample_position 0),
       animationFrameRef = None, next_frame_handle = 2\<rparr>, [(1000, sample_position 0)])"
  by (simp add: broadcastCursor_def frameCallback_def initial_broadcaster_def BROADCAST_INTERVAL_MS_def
      PRESENCE_TOPIC_def)

theorem cursor_broadcast_throttled_example:
  "snd (presence_run id True True
     (map BroadcastCursor [sample_position 1, sample_position 2, sample_position 3] @ [AnimationFrame 5000])
     initial_broadcaster) = [(5000, sample_position 3)] \<and>
   snd (presence_run id True True
     ([BroadcastCursor (sample_position 1), AnimationFrame 5000, BroadcastCursor (sample_position 2),
       AnimationFrame 5016, BroadcastCursor (sample_position 3)] @ [AnimationFrame 5033])
     initial_broadcaster) = [(5000, sample_position 1), (5033, sample_position 3)]"
proof -
  have calls: "[sample_position 1, sample_position 2, sample_position 3] \<noteq> []"
    by simp
  have late: "\<not> 5000 - lastBroadcastRef (initial_broadcaster :: int broadcaster) < 33"
    by (simp add: initial_broadcaster_def)
  have some: "positions [BroadcastCursor (sample_position 1), AnimationFrame 5000,
      BroadcastCursor (sample_position 2), AnimationFrame 5016, BroadcastCursor (sample_position 3)] \<noteq> []"
    by simp
  have before: "snd (presence_run id True True
      [BroadcastCursor (sample_position 1), AnimationFrame 5000, BroadcastCursor (sample_position 2),
       AnimationFrame 5016, BroadcastCursor (sample_position 3)] initial_broadcaster) =
      [(5000, sample_position 1)]"
    by (simp add: broadcastCursor_def frameCallback_def initial_broadcaster_def BROADCAST_INTERVAL_MS_def
      PRESENCE_TOPIC_def)
  have after: "snd (presence_run id True True
     ([BroadcastCursor (sample_position 1), AnimationFrame 5000, BroadcastCursor (sample_position 2),
       AnimationFrame 5016, BroadcastCursor (sample_position 3)] @ [AnimationFrame 5033])
     initial_broadcaster) \<noteq> [(5000, sample_position 1)]"
    by (simp add: broadcastCursor_def frameCallback_def initial_broadcaster_def BROADCAST_INTERVAL_MS_def
      PRESENCE_TOPIC_def)
  from cursor_broadcast_throttled [of "[sample_position 1, sample_position 2, sample_position 3]" id
      5000 initial_broadcaster True True "[]"]
    cursor_broadcast_throttled [of "[sample_position 1]" id 5033 initial_broadcaster True True
      "[BroadcastCursor (sample_position 1), AnimationFrame 5000, BroadcastCursor (sample_position 2),
       AnimationFrame 5016, BroadcastCursor (sample_position 3)]"]
    calls late some before after
  show ?thesis by simp
qed

text \<open>
  The claim as stated promises exactly one send for 100 calls within 16 ms. That fails
  when the frame of those calls comes less than 33 ms after a send: a position is sent
  on the frame at 1000, then 100 calls arrive and their frame comes at 1016. The
  callback returns at the interval check, so the whole run has sent only the first
  position: the 100 calls produced no send.
\<close>

theorem hundred_calls_after_recent_send:
  "snd (presence_run id True True
         ([BroadcastCursor (sample_position 0), AnimationFrame 1000] @
          (map BroadcastCursor (replicate 100 (sample_position 7)) @ [AnimationFrame 1016]))
         initial_broadcaster) = [(1000, sample_position 0)]"
proof -
  have "replicate 100 (sample_position 7) \<noteq> []" by simp
  from calls_then_frame [OF this, of id 1016
      "\<lparr>lastBroadcastRef = 1000, pendingPositionRef = Some (sample_position 0),
        animationFrameRef = None, next_frame_handle = 2\<rparr>"]
  show ?thesis
    by (simp only: presence_run_append [of id True True "[BroadcastCursor (sample_position 0), AnimationFrame 1000]"]
        first_send) (simp add: split_beta)
qed

section \<open>Loopback suppression and malformed payloads\<close>

text \<open>
  Claim C7. A message whose sender identity equals the local participant's identity is
  ignored by every handler, whatever its topic and payload: the whiteboard handler
  returns the element list as it was, the document bridge returns the provider as it
  was (document, awareness, flags), and the presence handler returns the cursor map as
  it was. None of them publishes or logs anything.
\<close>

theorem loopback_ignored:
  "handleData JSON_parse JSON_stringify rm payload (Some (room_localParticipant rm)) topic
     strokesRef strokes = (strokes, []) \<and>
   handleDataReceived lib payload' (this_localParticipant st) topic' st = (st, []) \<and>
   presence_handleData cursor_parse localParticipant now payload'' localParticipant topic'' cursors =
     (cursors, [])"
  by (simp add: handleData_def handleDataReceived_def presence_handleData_def)

theorem loopback_ignored_example:
  "handleData Some id room_alice (Msg_clear :: int wb_message) (Some ''alice'') (Some ''whiteboard'')
     [sample_stroke ''a1''] [sample_stroke ''a1''] = ([sample_stroke ''a1''], []) \<and>
   handleDataReceived sample_library ''S1'' (Some ''alice'') (Some SYNC_RESPONSE_TOPIC) alice_provider =
     (alice_provider, []) \<and>
   presence_handleData Some (Some ''alice'') 10000 \<lparr>pos_x = 0 :: int, pos_y = 1\<rparr> (Some ''alice'')
     (Some PRESENCE_TOPIC) [(''bob'', sample_cursor ''bob'' 9000)] =
     ([(''bob'', sample_cursor ''bob'' 9000)], [])"
proof -
  have alice: "Some (room_localParticipant room_alice) = Some ''alice''"
    by (simp add: room_alice_def)
  have local: "this_localParticipant alice_provider = Some ''alice''"
    by (simp add: alice_provider_def)
  from loopback_ignored [where JSON_parse = Some and JSON_stringify = id and rm = room_alice
      and payload = "Msg_clear :: int wb_message" and topic = "Some ''whiteboard''"
      and strokesRef = "[sample_stroke ''a1'']" and strokes = "[sample_stroke ''a1'']"
      and lib = sample_library and payload' = "''S1''" and st = alice_provider
      and topic' = "Some SYNC_RESPONSE_TOPIC" and cursor_parse = Some
      and localParticipant = "Some ''alice''" and now = 10000
      and payload'' = "\<lparr>pos_x = 0 :: int, pos_y = 1\<rparr>" and topic'' = "Some PRESENCE_TOPIC"
      and cursors = "[(''bob'', sample_cursor ''bob'' 9000)]"] alice local
  show ?thesis by simp
qed

text \<open>
  Claim C9. When the payload does not parse, \<^verbatim>\<open>JSON.parse\<close> throws inside the \<^verbatim>\<open>try\<close>
  block of the whiteboard handler and of the presence handler. Each handler returns
  normally with its state (element list, cursor map) unchanged; it publishes nothing,
  and all it does is log the error (when the topic is its own and the sender is
  remote; otherwise it had returned before parsing). No exception leaves the handler.
\<close>

theorem malformed_payload_dropped:
  assumes "JSON_parse payload = None" and "cursor_parse payload' = None"
  shows "handleData_try JSON_parse JSON_stringify rm payload strokesRef strokes = Inl SyntaxError \<and>
     handleData JSON_parse JSON_stringify rm payload participant topic strokesRef strokes =
       (strokes,
        if topic = Some ''whiteboard'' \<and> participant \<noteq> Some (room_localParticipant rm)
        then [Console_error ''Error decoding whiteboard data''] else []) \<and>
     presence_handleData_try cursor_parse payload' = Inl SyntaxError \<and>
     presence_handleData cursor_parse localParticipant now payload' participant' topic' cursors =
       (cursors,
        if topic' = Some PRESENCE_TOPIC \<and> participant' \<noteq> localParticipant
        then [Console_error ''[usePresence] Failed to parse cursor data:''] else [])"
  using assms
  by (simp add: handleData_def handleData_try_def presence_handleData_def presence_handleData_try_def)

text \<open>An instance, with parsers that accept a single payload.\<close>

definition sample_parse :: "string \<Rightarrow> int wb_message option" where
  "sample_parse p = (if p = ''clear'' then Some Msg_clear else None)"

definition sample_cursor_parse :: "string \<Rightarrow> int CursorPosition option" where
  "sample_cursor_parse p = (if p = ''origin'' then Some \<lparr>pos_x = 0, pos_y = 0\<rparr> else None)"

theorem malformed_payload_dropped_example:
  "handleData sample_parse (\<lambda>m. ''clear'') room_alice ''{not json'' (Some ''bob'') (Some ''whiteboard'')
     [sample_stroke ''a1''] [sample_stroke ''a1''] =
     ([sample_stroke ''a1''], [Console_error ''Error decoding whiteboard data'']) \<and>
   presence_handleData sample_cursor_parse (Some ''alice'') 10000 ''{not json'' (Some ''bob'')
     (Some PRESENCE_TOPIC) [(''bob'', sample_cursor ''bob'' 9000)] =
     ([(''bob'', sample_cursor ''bob'' 9000)],
      [Console_error ''[usePresence] Failed to parse cursor data:''])"
proof -
  have bad: "sample_parse ''{not json'' = None"
    by (simp add: sample_parse_def)
  have bad': "sample_cursor_parse ''{not json'' = None"
    by (simp add: sample_cursor_parse_def)
  have remote: "Some ''bob'' \<noteq> Some (room_localParticipant room_alice)"
    by (simp add: room_alice_def)
  from malformed_payload_dropped [where JSON_parse = sample_parse and payload = "''{not json''"
      and cursor_parse = sample_cursor_parse and payload' = "''{not json''"
      and JSON_stringify = "\<lambda>m. ''clear''" and rm = room_alice and strokes = "[sample_stroke ''a1'']"
      and strokesRef = "[sample_stroke ''a1'']"
      and participant = "Some ''bob''" and topic = "Some ''whiteboard''"
      and localParticipant = "Some ''alice''" and now = 10000 and participant' = "Some ''bob''"
      and topic' = "Some PRESENCE_TOPIC" and cursors = "[(''bob'', sample_cursor ''bob'' 9000)]",
      OF bad bad'] remote
  show ?thesis by simp
qed

end
